theory Spec2Isabelle
  imports Complex_Main "HOL-Library.AList"
begin

section \<open>Python values used by the backend\<close>

text \<open>
  A Python \<open>dict\<close> keeps its keys distinct and in insertion order. It is modelled as an
  association list: \<open>d[k] = v\<close> is \<open>AList.update k v d\<close> (overwrite in place, or append),
  \<open>d.get(k)\<close> is \<open>map_of d k\<close>, \<open>del d[k]\<close> is \<open>AList.delete k d\<close>, \<open>d.items()\<close> is the
  list itself. Python \<open>float\<close>s are modelled as \<open>real\<close>; the backend only stores, compares
  and forwards them.
\<close>

type_synonym ('k, 'v) dict = "('k \<times> 'v) list"

text \<open>
  Exceptions. Every constructor carries the text that \<open>str(e)\<close> yields.
  \<open>HTTPException\<close> carries the status code and the detail. \<open>InvalidParameters\<close>,
  \<open>InvalidAction\<close>, \<open>MissingPayoff\<close> and \<open>MissingStrategy\<close> are the error kinds the
  specification names for the game engine.
\<close>

datatype exn =
    ValueError string
  | KeyError string
  | IndexError string
  | AttributeError string
  | NotImplementedError string
  | InvalidParameters string
  | InvalidAction string
  | MissingPayoff string
  | MissingStrategy string
  | OtherError string
  | HTTPException nat string

fun str_exn :: "exn \<Rightarrow> string" where
  "str_exn (ValueError m) = m"
| "str_exn (KeyError m) = m"
| "str_exn (IndexError m) = m"
| "str_exn (AttributeError m) = m"
| "str_exn (NotImplementedError m) = m"
| "str_exn (InvalidParameters m) = m"
| "str_exn (InvalidAction m) = m"
| "str_exn (MissingPayoff m) = m"
| "str_exn (MissingStrategy m) = m"
| "str_exn (OtherError m) = m"
| "str_exn (HTTPException c m) = m"

text \<open>\<open>repr\<close> of a string, for strings without quotes, backslashes or control characters.\<close>

definition repr_py :: "string \<Rightarrow> string" where
  "repr_py s = [CHR 0x27] @ s @ [CHR 0x27]"

subsection \<open>\<open>int(s)\<close> and \<open>str(i)\<close>\<close>

text \<open>
  \<open>int(s)\<close> on a string: surrounding whitespace is stripped, one sign is allowed, then
  decimal digits, with single underscores allowed between digits. Anything else raises
  \<open>ValueError\<close>. Only ASCII digits and ASCII whitespace are modelled.
\<close>

definition is_space :: "char \<Rightarrow> bool" where
  "is_space c = ((of_char c :: nat) \<in> {9, 10, 11, 12, 13, 28, 29, 30, 31, 32})"

definition strip :: "string \<Rightarrow> string" where
  "strip s = rev (dropWhile is_space (rev (dropWhile is_space s)))"

definition is_digit :: "char \<Rightarrow> bool" where
  "is_digit c = (48 \<le> (of_char c :: nat) \<and> (of_char c :: nat) \<le> 57)"

definition digit_val :: "char \<Rightarrow> nat" where
  "digit_val c = of_char c - 48"

fun parse_digits :: "bool \<Rightarrow> nat \<Rightarrow> string \<Rightarrow> nat option" where
  "parse_digits prev acc [] = (if prev then Some acc else None)"
| "parse_digits prev acc (c # cs) =
     (if is_digit c then parse_digits True (10 * acc + digit_val c) cs
      else if c = CHR ''_'' \<and> prev then parse_digits False acc cs
      else None)"

definition int_py :: "string \<Rightarrow> exn + int" where
  "int_py s =
     (let err = Inl (ValueError (''invalid literal for int() with base 10: '' @ repr_py s)) in
      case strip s of
        [] \<Rightarrow> err
      | c # cs \<Rightarrow>
          if c = CHR ''-'' then
            (case parse_digits False 0 cs of None \<Rightarrow> err | Some n \<Rightarrow> Inr (- int n))
          else if c = CHR ''+'' then
            (case parse_digits False 0 cs of None \<Rightarrow> err | Some n \<Rightarrow> Inr (int n))
          else
            (case parse_digits False 0 (c # cs) of None \<Rightarrow> err | Some n \<Rightarrow> Inr (int n)))"

definition digit_char :: "nat \<Rightarrow> char" where
  "digit_char d = ''0123456789'' ! d"

function str_nat :: "nat \<Rightarrow> string" where
  "str_nat n = (if n < 10 then [digit_char n] else str_nat (n div 10) @ [digit_char (n mod 10)])"
  by pat_completeness auto
termination
  by (relation "measure id") auto

declare str_nat.simps [simp del]

definition str_py :: "int \<Rightarrow> string" where
  "str_py i = (if i < 0 then CHR ''-'' # str_nat (nat (- i)) else str_nat (nat i))"

subsection \<open>Comprehensions over a dict\<close>

text \<open>
  \<open>{f(k): g(v) for k, v in items}\<close> where \<open>f\<close> and \<open>g\<close> may raise: the items are visited
  in order, the key is evaluated before the value, a later item overwrites an earlier
  one with the same new key, and the first exception ends the comprehension. A loop
  \<open>for k, v in items: d[f(k)] = g(v)\<close> over a fresh dict is the same computation.
\<close>

fun dict_comp_from :: "('j, 'w) dict \<Rightarrow> ('k \<Rightarrow> exn + 'j) \<Rightarrow> ('v \<Rightarrow> exn + 'w) \<Rightarrow> ('k \<times> 'v) list
    \<Rightarrow> exn + ('j, 'w) dict" where
  "dict_comp_from acc f g [] = Inr acc"
| "dict_comp_from acc f g ((k, v) # d) =
     (case f k of
        Inl e \<Rightarrow> Inl e
      | Inr j \<Rightarrow>
          (case g v of
             Inl e \<Rightarrow> Inl e
           | Inr w \<Rightarrow> dict_comp_from (AList.update j w acc) f g d))"

definition dict_comp :: "('k \<Rightarrow> exn + 'j) \<Rightarrow> ('v \<Rightarrow> exn + 'w) \<Rightarrow> ('k \<times> 'v) list \<Rightarrow> exn + ('j, 'w) dict" where
  "dict_comp f g d = dict_comp_from [] f g d"

text \<open>\<open>{str(k): v for k, v in d.items()}\<close>: the key function cannot raise.\<close>

definition str_keys :: "(int, 'v) dict \<Rightarrow> (string, 'v) dict" where
  "str_keys d = foldl (\<lambda>acc (k, v). AList.update (str_py k) v acc) [] d"

section \<open>backend/session_manager.py\<close>

record 'g session =
  session_game :: "'g"
  session_game_type :: "string option"
  session_created_at :: "unit option"

record 'g session_manager =
  sessions :: "(string, 'g session) dict"

definition init_session_manager :: "'g session_manager" where
  "init_session_manager = \<lparr>sessions = []\<rparr>"

text \<open>
  A stored session is the dict with the keys \<open>"game"\<close>, \<open>"game_type"\<close> and
  \<open>"created_at"\<close>; the record fields carry the prefix \<open>session_\<close>.
  \<open>create_session\<close>: the last argument is the string \<open>str(uuid.uuid4())\<close> would draw; it
  is used only when no session id is passed. The stored game is whatever object the
  caller passes (the type \<open>'g\<close>; Python's default \<open>None\<close> is one such object).
\<close>

definition create_session ::
  "'g session_manager \<Rightarrow> string option \<Rightarrow> 'g \<Rightarrow> string option \<Rightarrow> string
     \<Rightarrow> string \<times> 'g session_manager" where
  "create_session sm session_id g t uuid4 =
     (let sid = (case session_id of None \<Rightarrow> uuid4 | Some s \<Rightarrow> s) in
      (sid, sm\<lparr>sessions :=
          AList.update sid \<lparr>session_game = g, session_game_type = t, session_created_at = None\<rparr> (sessions sm)\<rparr>))"

definition get_session :: "'g session_manager \<Rightarrow> string \<Rightarrow> 'g session option" where
  "get_session sm session_id = map_of (sessions sm) session_id"

definition delete_session :: "'g session_manager \<Rightarrow> string \<Rightarrow> bool \<times> 'g session_manager" where
  "delete_session sm session_id =
     (if session_id \<in> fst ` set (sessions sm)
      then (True, sm\<lparr>sessions := AList.delete session_id (sessions sm)\<rparr>)
      else (False, sm))"

definition list_sessions :: "'g session_manager \<Rightarrow> string list" where
  "list_sessions sm = map fst (sessions sm)"

section \<open>backend/game_factory.py\<close>

text \<open>
  Values of type \<open>Any\<close> that arrive in a request body: JSON values, with Python's
  \<open>None\<close> as \<open>JNull\<close> and \<open>int\<close> kept apart from \<open>float\<close>.
\<close>

datatype json =
    JNull
  | JBool bool
  | JInt int
  | JFloat real
  | JStr string
  | JArr "json list"
  | JObj "(string \<times> json) list"

text \<open>\<open>d.get(k, default)\<close>; \<open>d.get(k)\<close> is \<open>dict_get d k JNull\<close>.\<close>

definition dict_get :: "('k, 'v) dict \<Rightarrow> 'k \<Rightarrow> 'v \<Rightarrow> 'v" where
  "dict_get d k dflt = (case map_of d k of None \<Rightarrow> dflt | Some v \<Rightarrow> v)"

text \<open>
  The strategy classes imported from \<open>game_engine.strategies\<close>; an instance carries no
  constructor argument. \<open>DummyStrategy\<close> is the subclass the analysis handlers of
  \<open>main.py\<close> declare.
\<close>

datatype strategy =
    AlwaysCooperate
  | AlwaysDefect
  | TitForTat
  | GrimTrigger
  | RandomStrategy
  | DummyStrategy

definition STRATEGY_MAP :: "(string, strategy) dict" where
  "STRATEGY_MAP =
     [(''AlwaysCooperate'', AlwaysCooperate),
      (''AlwaysDefect'', AlwaysDefect),
      (''TitForTat'', TitForTat),
      (''GrimTrigger'', GrimTrigger),
      (''RandomStrategy'', RandomStrategy)]"

definition create_strategy :: "string \<Rightarrow> exn + strategy" where
  "create_strategy strategy_name =
     (case map_of STRATEGY_MAP strategy_name of
        None \<Rightarrow> Inl (ValueError (''Unknown strategy: '' @ strategy_name))
      | Some strategy_class \<Rightarrow> Inr strategy_class)"

text \<open>A list comprehension whose body may raise: the first exception ends it.\<close>

fun map_exn :: "('a \<Rightarrow> exn + 'b) \<Rightarrow> 'a list \<Rightarrow> exn + 'b list" where
  "map_exn f [] = Inr []"
| "map_exn f (x # xs) =
     (case f x of
        Inl e \<Rightarrow> Inl e
      | Inr y \<Rightarrow> (case map_exn f xs of Inl e \<Rightarrow> Inl e | Inr ys \<Rightarrow> Inr (y # ys)))"

text \<open>
  \<open>game_engine.templates\<close> is not part of the sources at hand. Its registry
  \<open>AVAILABLE_GAMES\<close> and its three constructors are parameters of the model: an entry of
  the registry has the fields \<open>name\<close>, \<open>description\<close>, \<open>type\<close> and \<open>factory\<close> that
  \<open>main.py\<close> and \<open>game_factory.py\<close> read.
\<close>

record 'f game_info =
  info_name :: string
  info_description :: string
  info_type :: string
  info_factory :: 'f

record 'g templates =
  create_prisoners_dilemma :: "string list option \<Rightarrow> strategy list option \<Rightarrow> json \<Rightarrow> exn + 'g"
  create_cournot_game :: "string list option \<Rightarrow> json \<Rightarrow> json \<Rightarrow> json \<Rightarrow> exn + 'g"
  create_auction_game :: "string list option \<Rightarrow> json \<Rightarrow> json \<Rightarrow> exn + 'g"

definition create_game_from_template ::
  "'g templates \<Rightarrow> (string, 'f game_info) dict \<Rightarrow> string \<Rightarrow> (string, json) dict
     \<Rightarrow> string list option \<Rightarrow> string list option \<Rightarrow> exn + 'g" where
  "create_game_from_template T AVAILABLE_GAMES game_type params player_names strategies =
     (case map_of AVAILABLE_GAMES game_type of
        None \<Rightarrow> Inl (ValueError (''Unknown game type: '' @ game_type))
      | Some game_info \<Rightarrow>
          (case (case strategies of
                   None \<Rightarrow> Inr None
                 | Some [] \<Rightarrow> Inr None
                 | Some ss \<Rightarrow> map_sum id Some (map_exn create_strategy ss)) of
             Inl e \<Rightarrow> Inl e
           | Inr strategy_instances \<Rightarrow>
               if game_type = ''prisoners_dilemma'' then
                 create_prisoners_dilemma T player_names strategy_instances
                   (dict_get params ''payoffs'' JNull)
               else if game_type = ''cournot'' then
                 create_cournot_game T player_names
                   (dict_get params ''demand_intercept'' (JFloat 100))
                   (dict_get params ''demand_slope'' (JFloat 1))
                   (dict_get params ''marginal_costs'' JNull)
               else if game_type = ''auction'' then
                 create_auction_game T player_names
                   (dict_get params ''private_values'' JNull)
                   (dict_get params ''num_players'' (JInt 2))
               else Inl (ValueError (''Unsupported game type: '' @ game_type))))"

section \<open>backend/models.py\<close>

text \<open>
  The request models, one constructor each, with the fields in the order of the class.
  \<open>CreateGameRequest\<close>: game type, params, player names, strategies.
  \<open>PlayRoundRequest\<close>: actions. \<open>SimulateRequest\<close>: number of rounds, discount factor.
  \<open>NashEquilibriumRequest\<close> and \<open>BestResponseRequest\<close>: payoff matrix, player actions.
  \<open>CournotEquilibriumRequest\<close>: demand intercept, demand slope, marginal costs.
\<close>

datatype create_game_request =
  CreateGameRequest string "(string, json) dict" "string list option" "string list option"

datatype play_round_request =
  PlayRoundRequest "(string, string) dict"

datatype simulate_request =
  SimulateRequest int "real option"

datatype nash_equilibrium_request =
  NashEquilibriumRequest "(string, real list) dict" "(string, string list) dict"

datatype cournot_equilibrium_request =
  CournotEquilibriumRequest real real "(string, real) dict"

datatype best_response_request =
  BestResponseRequest "(string, real list) dict" "(string, string list) dict"


text \<open>
  The responses. An element of a response's history is the dict with the keys
  \<open>"profile"\<close> and \<open>"payoffs"\<close>.
  \<open>CreateGameResponse\<close>: session id, game type, game state.
  \<open>GameSessionResponse\<close> (the dict \<open>get_game_session\<close> returns): session id, game type,
  game state. \<open>PlayRoundResponse\<close>: payoffs, game state, history.
  \<open>SimulateResponse\<close>: history, cumulative payoffs, discounted payoffs, strategy history.
  \<open>ResetResponse\<close> (the dict \<open>reset_game\<close> returns): message, game state.
  \<open>NashEquilibriumResponse\<close>: pure equilibria, mixed equilibria.
  \<open>CournotEquilibriumResponse\<close>: equilibrium quantities, equilibrium price, payoffs.
  \<open>BestResponseResponse\<close>: nodes, edges, Nash nodes.
\<close>

datatype history_item =
  HistoryItem "string list" "(string, real) dict"

type_synonym mixed_equilibrium = "(int, (string, real) dict) dict"

datatype response =
    RootResponse string
  | ListGamesResponse "(string, string \<times> string \<times> string) dict"
  | CreateGameResponse string string "(string, json) dict"
  | GameSessionResponse string "string option" "(string, json) dict"
  | PlayRoundResponse "(string, real) dict" "(string, json) dict" "history_item list"
  | SimulateResponse "history_item list" "(string, real) dict" "(string, real) dict option"
      "(string, string) dict list"
  | ResetResponse string "(string, json) dict"
  | NashEquilibriumResponse "string list list" "mixed_equilibrium list"
  | CournotEquilibriumResponse "(string, real) dict" real "(string, real) dict"
  | BestResponseResponse "json list" "json list" "int list"

section \<open>The game objects behind a session\<close>

text \<open>
  \<open>game_engine\<close> is not part of the sources at hand. What the session handlers of
  \<open>main.py\<close> call on a stored game is a parameter of the model, for an arbitrary type
  \<open>'g\<close> of game objects: \<open>get_state()\<close>, the class of the object with the attributes
  \<open>serialize_game_state\<close> reads from it, \<open>play_round(actions)\<close>, the attribute
  \<open>history\<close>, \<open>reset()\<close> and \<open>simulate_repeated_game\<close>. A call that mutates the game
  returns the game as it is left, also when the call raises.
\<close>

datatype game_class =
    IsNormalFormGame json "(int, string list) dict"
  | IsCournotGame real real "(int, real) dict"
  | IsOtherGame

type_synonym history_entry = "string list \<times> (int, real) dict"

record sim_result =
  result_history :: "history_entry list"
  result_cumulative_payoffs :: "(int, real) dict"
  result_discounted_payoffs :: "(int, real) dict option"
  result_strategy_history :: "(int, string) dict list"

record 'g engine =
  get_state_of :: "'g \<Rightarrow> (string, json) dict"
  class_of :: "'g \<Rightarrow> game_class"
  play_round_of :: "'g \<Rightarrow> (int, string) dict \<Rightarrow> (exn + (int, real) dict) \<times> 'g"
  history_of :: "'g \<Rightarrow> history_entry list"
  reset_of :: "'g \<Rightarrow> 'g"
  simulate_of :: "'g \<Rightarrow> int \<Rightarrow> real option \<Rightarrow> bool \<Rightarrow> (exn + sim_result) \<times> 'g"

section \<open>backend/main.py: the session handlers\<close>

definition serialize_game_state :: "'g engine \<Rightarrow> 'g \<Rightarrow> (string, json) dict" where
  "serialize_game_state E g =
     (let state = get_state_of E g in
      case class_of E g of
        IsNormalFormGame payoff_matrix_dict actions \<Rightarrow>
          AList.update ''actions''
            (JObj (map (\<lambda>(k, v). (k, JArr (map JStr v))) (str_keys actions)))
            (AList.update ''payoff_matrix'' payoff_matrix_dict
              (AList.update ''game_type'' (JStr ''normal_form'') state))
      | IsCournotGame demand_intercept demand_slope marginal_costs \<Rightarrow>
          AList.update ''marginal_costs''
            (JObj (map (\<lambda>(k, v). (k, JFloat v)) (str_keys marginal_costs)))
            (AList.update ''demand_slope'' (JFloat demand_slope)
              (AList.update ''demand_intercept'' (JFloat demand_intercept)
                (AList.update ''game_type'' (JStr ''cournot'') state)))
      | IsOtherGame \<Rightarrow> AList.update ''game_type'' (JStr ''unknown'') state)"

text \<open>
  A handler runs on the process-wide \<open>session_manager\<close> and returns its response, or the
  exception that leaves it, together with the session manager as it is left. The stored
  session refers to the game object, so a game that a handler mutates is written back
  under the same id.
\<close>

definition set_game :: "'g session_manager \<Rightarrow> string \<Rightarrow> 'g session \<Rightarrow> 'g \<Rightarrow> 'g session_manager" where
  "set_game sm session_id session g =
     sm\<lparr>sessions := AList.update session_id (session\<lparr>session_game := g\<rparr>) (sessions sm)\<rparr>"

definition history_items :: "history_entry list \<Rightarrow> history_item list" where
  "history_items h = map (\<lambda>(profile, payoffs_dict). HistoryItem profile (str_keys payoffs_dict)) h"

definition root :: "response" where
  "root = RootResponse ''Game Theory Teaching Platform API''"

definition list_games :: "(string, 'f game_info) dict \<Rightarrow> response" where
  "list_games AVAILABLE_GAMES =
     ListGamesResponse
       (foldl (\<lambda>games (game_type, game_info).
                 AList.update game_type
                   (info_name game_info, info_description game_info, info_type game_info) games)
          [] AVAILABLE_GAMES)"

definition create_game ::
  "'g engine \<Rightarrow> 'g templates \<Rightarrow> (string, 'f game_info) dict \<Rightarrow> string \<Rightarrow> 'g session_manager
     \<Rightarrow> create_game_request \<Rightarrow> (exn + response) \<times> 'g session_manager" where
  "create_game E T AVAILABLE_GAMES uuid4 sm request =
     (case request of CreateGameRequest game_type params player_names strategies \<Rightarrow>
        (case create_game_from_template T AVAILABLE_GAMES game_type params player_names strategies of
           Inl (ValueError m) \<Rightarrow> (Inl (HTTPException 400 m), sm)
         | Inl e \<Rightarrow> (Inl (HTTPException 500 (''Internal server error: '' @ str_exn e)), sm)
         | Inr g \<Rightarrow>
             (case create_session sm None g (Some game_type) uuid4 of
                (session_id, sm') \<Rightarrow>
                  (Inr (CreateGameResponse session_id game_type (serialize_game_state E g)), sm'))))"

definition get_game_session ::
  "'g engine \<Rightarrow> 'g session_manager \<Rightarrow> string \<Rightarrow> (exn + response) \<times> 'g session_manager" where
  "get_game_session E sm session_id =
     (case get_session sm session_id of
        None \<Rightarrow> (Inl (HTTPException 404 ''Session not found''), sm)
      | Some session \<Rightarrow>
          (Inr (GameSessionResponse session_id (session_game_type session)
                  (serialize_game_state E (session_game session))), sm))"

text \<open>
  \<open>play_round\<close>: the keys are converted before the \<open>try\<close>, so a \<open>ValueError\<close> of \<open>int\<close>
  leaves the handler as it is; inside the \<open>try\<close> only \<open>KeyError\<close> and \<open>ValueError\<close> are
  turned into the status 400.
\<close>

definition play_round ::
  "'g engine \<Rightarrow> 'g session_manager \<Rightarrow> string \<Rightarrow> play_round_request
     \<Rightarrow> (exn + response) \<times> 'g session_manager" where
  "play_round E sm session_id request =
     (case request of PlayRoundRequest request_actions \<Rightarrow>
        (case get_session sm session_id of
           None \<Rightarrow> (Inl (HTTPException 404 ''Session not found''), sm)
         | Some session \<Rightarrow>
             (case dict_comp int_py Inr request_actions of
                Inl e \<Rightarrow> (Inl e, sm)
              | Inr actions \<Rightarrow>
                  (case play_round_of E (session_game session) actions of
                     (Inl (KeyError m), g') \<Rightarrow>
                       (Inl (HTTPException 400 (''Invalid action: '' @ m)),
                        set_game sm session_id session g')
                   | (Inl (ValueError m), g') \<Rightarrow>
                       (Inl (HTTPException 400 (''Invalid action: '' @ m)),
                        set_game sm session_id session g')
                   | (Inl e, g') \<Rightarrow> (Inl e, set_game sm session_id session g')
                   | (Inr payoffs, g') \<Rightarrow>
                       (Inr (PlayRoundResponse (str_keys payoffs) (serialize_game_state E g')
                               (history_items (history_of E g'))),
                        set_game sm session_id session g')))))"

definition simulate_game ::
  "'g engine \<Rightarrow> 'g session_manager \<Rightarrow> string \<Rightarrow> simulate_request
     \<Rightarrow> (exn + response) \<times> 'g session_manager" where
  "simulate_game E sm session_id request =
     (case request of SimulateRequest num_rounds discount_factor \<Rightarrow>
        (case get_session sm session_id of
           None \<Rightarrow> (Inl (HTTPException 404 ''Session not found''), sm)
         | Some session \<Rightarrow>
             (case simulate_of E (session_game session) num_rounds discount_factor False of
                (Inl e, g') \<Rightarrow>
                  (Inl (HTTPException 500 (''Simulation error: '' @ str_exn e)),
                   set_game sm session_id session g')
              | (Inr result, g') \<Rightarrow>
                  (Inr (SimulateResponse
                          (history_items (result_history result))
                          (str_keys (result_cumulative_payoffs result))
                          (case result_discounted_payoffs result of
                             None \<Rightarrow> None
                           | Some [] \<Rightarrow> None
                           | Some d \<Rightarrow> Some (str_keys d))
                          (map str_keys (result_strategy_history result))),
                   set_game sm session_id session g'))))"

definition reset_game ::
  "'g engine \<Rightarrow> 'g session_manager \<Rightarrow> string \<Rightarrow> (exn + response) \<times> 'g session_manager" where
  "reset_game E sm session_id =
     (case get_session sm session_id of
        None \<Rightarrow> (Inl (HTTPException 404 ''Session not found''), sm)
      | Some session \<Rightarrow>
          (let g' = reset_of E (session_game session) in
           (Inr (ResetResponse ''Game reset successfully'' (serialize_game_state E g')),
            set_game sm session_id session g')))"

section \<open>The game engine\<close>

subsection \<open>Players and the Cournot game\<close>

text \<open>
  Modelled from the spec: \<open>game_engine.core.Player\<close>, \<open>game_engine.cournot.CournotGame\<close> and
  its \<open>compute_equilibrium\<close> are missing from the sources. A player has an integer id, a
  display name and an optional strategy. The Cournot game holds its players, the demand
  intercept \<open>a\<close>, the demand slope \<open>b\<close> and the marginal costs, keyed by player id as
  \<open>main.py\<close> passes them. The equilibrium computation fails with \<open>InvalidParameters\<close> when
  \<open>a \<le> 0\<close>, \<open>b \<le> 0\<close> or the number of costs differs from the number of players
  (the message texts are the model's); the cost of a player is \<open>marginal_costs[id]\<close>, a
  dict lookup. The first-order conditions \<open>a - c_i - b * Q - b * q_i = 0\<close> are solved for
  the firms that are still active; firms with a negative quantity are fixed at 0 and
  the rest solved again, until no quantity is negative. The result holds the quantities,
  the price \<open>a - b * Q\<close> and the profits \<open>(price - c_i) * q_i\<close>.
\<close>

record player =
  player_id :: int
  player_name :: string
  player_strategy :: "strategy option"

definition Player :: "int \<Rightarrow> string \<Rightarrow> strategy \<Rightarrow> player" where
  "Player i n s = \<lparr>player_id = i, player_name = n, player_strategy = Some s\<rparr>"

record cournot_game =
  cg_players :: "player list"
  cg_demand_intercept :: real
  cg_demand_slope :: real
  cg_marginal_costs :: "(int, real) dict"

definition CournotGame :: "player list \<Rightarrow> real \<Rightarrow> real \<Rightarrow> (int, real) dict \<Rightarrow> cournot_game" where
  "CournotGame ps a b mc =
     \<lparr>cg_players = ps, cg_demand_intercept = a, cg_demand_slope = b, cg_marginal_costs = mc\<rparr>"

record cournot_equilibrium =
  eq_quantities :: "(int, real) dict"
  eq_price :: real
  eq_payoffs :: "(int, real) dict"

definition dict_of :: "('k \<times> 'v) list \<Rightarrow> ('k, 'v) dict" where
  "dict_of kvs = foldl (\<lambda>d (k, v). AList.update k v d) [] kvs"

definition reaction_quantity :: "real \<Rightarrow> real \<Rightarrow> (int \<times> real) list \<Rightarrow> real \<Rightarrow> real" where
  "reaction_quantity a b firms c =
     (a - c) / b - (\<Sum>(i, c') \<leftarrow> firms. a - c') / (b * (real (length firms) + 1))"

function reaction_solve :: "real \<Rightarrow> real \<Rightarrow> (int \<times> real) list \<Rightarrow> (int \<times> real) list" where
  "reaction_solve a b firms =
     (let active = filter (\<lambda>(i, c). 0 \<le> reaction_quantity a b firms c) firms in
      if length active = length firms
      then map (\<lambda>(i, c). (i, reaction_quantity a b firms c)) firms
      else reaction_solve a b active)"
  by pat_completeness auto
termination
proof (relation "measure (\<lambda>(a, b, firms). length firms)")
  show "wf (measure (\<lambda>(a, b, firms). length firms))"
    by simp
next
  fix a b :: real and firms active :: "(int \<times> real) list"
  assume "active = filter (\<lambda>(i, c). 0 \<le> reaction_quantity a b firms c) firms"
    and "length active \<noteq> length firms"
  moreover have "length (filter (\<lambda>(i, c). 0 \<le> reaction_quantity a b firms c) firms) \<le> length firms"
    by (rule length_filter_le)
  ultimately show "((a, b, active), (a, b, firms)) \<in> measure (\<lambda>(a, b, firms). length firms)"
    by (simp add: le_neq_implies_less)
qed

declare reaction_solve.simps [simp del]

definition CournotGame_compute_equilibrium :: "cournot_game \<Rightarrow> exn + cournot_equilibrium" where
  "CournotGame_compute_equilibrium g =
     (let a = cg_demand_intercept g; b = cg_demand_slope g in
      if a \<le> 0 then Inl (InvalidParameters ''demand_intercept must be positive'')
      else if b \<le> 0 then Inl (InvalidParameters ''demand_slope must be positive'')
      else if length (cg_marginal_costs g) \<noteq> length (cg_players g)
        then Inl (InvalidParameters ''marginal_costs must have one cost per player'')
      else
        (case map_exn (\<lambda>p. case map_of (cg_marginal_costs g) (player_id p) of
                               None \<Rightarrow> Inl (KeyError (str_py (player_id p)))
                             | Some c \<Rightarrow> Inr (player_id p, c)) (cg_players g) of
           Inl e \<Rightarrow> Inl e
         | Inr firms \<Rightarrow>
             (let solved = reaction_solve a b firms;
                  qs = map (\<lambda>(i, c). (i, c, dict_get solved i 0)) firms;
                  price = a - b * (\<Sum>(i, c, q) \<leftarrow> qs. q)
              in Inr \<lparr>eq_quantities = dict_of (map (\<lambda>(i, c, q). (i, q)) qs),
                      eq_price = price,
                      eq_payoffs = dict_of (map (\<lambda>(i, c, q). (i, (price - c) * q)) qs)\<rparr>)))"

subsection \<open>The normal-form game and the Nash solver\<close>

text \<open>
  Modelled from the spec: \<open>game_engine.normal_form.NormalFormGame\<close> and
  \<open>game_engine.solvers.NashSolver\<close> are missing from the sources. The game holds its
  players, the action set of each player, the payoff table from action profiles to the
  payoffs by player id, and the history. A profile lists one action per player in
  ascending order of the ids. A profile or a player missing from the payoff table is
  \<open>MissingPayoff\<close>, never a default.
\<close>

record normal_form_game =
  nf_players :: "player list"
  nf_actions :: "(int, string list) dict"
  nf_payoff_matrix :: "(string list, (int, real) dict) dict"
  nf_history :: "history_entry list"

definition NormalFormGame ::
  "player list \<Rightarrow> (int, string list) dict \<Rightarrow> (string list, (int, real) dict) dict
     \<Rightarrow> normal_form_game" where
  "NormalFormGame ps acts pm =
     \<lparr>nf_players = ps, nf_actions = acts, nf_payoff_matrix = pm, nf_history = []\<rparr>"

definition nf_player_ids :: "normal_form_game \<Rightarrow> int list" where
  "nf_player_ids g = sort (map player_id (nf_players g))"

definition action_set :: "normal_form_game \<Rightarrow> int \<Rightarrow> exn + string list" where
  "action_set g i =
     (case map_of (nf_actions g) i of
        None \<Rightarrow> Inl (KeyError (str_py i))
      | Some acts \<Rightarrow> Inr acts)"

definition lookup_payoffs :: "normal_form_game \<Rightarrow> string list \<Rightarrow> exn + (int, real) dict" where
  "lookup_payoffs g profile =
     (case map_of (nf_payoff_matrix g) profile of
        None \<Rightarrow> Inl (MissingPayoff ''no payoffs for the action profile'')
      | Some d \<Rightarrow> Inr d)"

definition lookup_payoff :: "normal_form_game \<Rightarrow> string list \<Rightarrow> int \<Rightarrow> exn + real" where
  "lookup_payoff g profile i =
     (case lookup_payoffs g profile of
        Inl e \<Rightarrow> Inl e
      | Inr d \<Rightarrow>
          (case map_of d i of
             None \<Rightarrow> Inl (MissingPayoff ''no payoff for the player'')
           | Some u \<Rightarrow> Inr u))"

text \<open>
  Modelled from the spec: the pure search of \<open>NashSolver\<close>. Every profile of the
  Cartesian product of the action sets is tested; it is an equilibrium when no player
  has an alternative action that strictly improves that player's payoff with the other
  actions fixed. A tie is no improvement.
\<close>

definition can_improve :: "normal_form_game \<Rightarrow> string list \<Rightarrow> nat \<times> int \<Rightarrow> exn + bool" where
  "can_improve g profile ki =
     (case ki of (k, i) \<Rightarrow>
        (case lookup_payoff g profile i of
           Inl e \<Rightarrow> Inl e
         | Inr u \<Rightarrow>
             (case action_set g i of
                Inl e \<Rightarrow> Inl e
              | Inr acts \<Rightarrow>
                  (case map_exn (\<lambda>a'. lookup_payoff g (profile[k := a']) i) acts of
                     Inl e \<Rightarrow> Inl e
                   | Inr us \<Rightarrow> Inr (list_ex (\<lambda>u'. u < u') us)))))"

definition is_pure_nash :: "normal_form_game \<Rightarrow> string list \<Rightarrow> exn + bool" where
  "is_pure_nash g profile =
     (case map_exn (can_improve g profile) (enumerate 0 (nf_player_ids g)) of
        Inl e \<Rightarrow> Inl e
      | Inr bs \<Rightarrow> Inr (\<not> list_ex id bs))"

definition all_profiles :: "normal_form_game \<Rightarrow> exn + string list list" where
  "all_profiles g =
     (case map_exn (action_set g) (nf_player_ids g) of
        Inl e \<Rightarrow> Inl e
      | Inr sets \<Rightarrow> Inr (product_lists sets))"

definition find_pure_nash :: "normal_form_game \<Rightarrow> exn + string list list" where
  "find_pure_nash g =
     (case all_profiles g of
        Inl e \<Rightarrow> Inl e
      | Inr profiles \<Rightarrow>
          (case map_exn (is_pure_nash g) profiles of
             Inl e \<Rightarrow> Inl e
           | Inr bs \<Rightarrow> Inr (map fst (filter snd (zip profiles bs)))))"

text \<open>
  Modelled from the spec: the linear solve that the mixed search of \<open>NashSolver\<close> needs.
  A square linear system, each row the coefficients followed by the right-hand side,
  solved by elimination; \<open>None\<close> when it has no unique solution.
\<close>

fun gauss :: "nat \<Rightarrow> real list list \<Rightarrow> real list option" where
  "gauss 0 rows = (if rows = [] then Some [] else None)"
| "gauss (Suc n) rows =
     (case List.extract (\<lambda>r. hd r \<noteq> 0) rows of
        None \<Rightarrow> None
      | Some (before, r, after) \<Rightarrow>
          (let pivot = map (\<lambda>x. x / hd r) r;
               rest = map (\<lambda>row. tl (map2 (\<lambda>x y. x - hd row * y) row pivot)) (before @ after)
           in case gauss n rest of
                None \<Rightarrow> None
              | Some xs \<Rightarrow>
                  Some ((last pivot - (\<Sum>(c, x) \<leftarrow> zip (butlast (tl pivot)) xs. c * x)) # xs)))"

definition solve_linear :: "real list list \<Rightarrow> real list option" where
  "solve_linear rows =
     (if list_all (\<lambda>r. length r = length rows + 1) rows then gauss (length rows) rows else None)"

text \<open>
  Modelled from the spec: the mixed search of \<open>NashSolver\<close>, for two players only; for
  any other number of players it returns the empty list. Every pair of non-empty
  supports is tried, solutions with probabilities 0 and 1 only are left out, and a
  system without a unique solution yields nothing. \<open>U\<close> is the payoff table of the
  player whose indifference is required, indexed by that player's action and then the
  opponent's action. For a support \<open>S\<close> of the player and a support \<open>S'\<close> of the opponent, the
  system asks for an opponent distribution on \<open>S'\<close> under which all actions of \<open>S\<close> earn
  the same value \<open>v\<close>; the solution is kept when no probability is negative and no
  action outside \<open>S\<close> earns more than \<open>v\<close>. The result is the opponent's distribution over
  all of the opponent's \<open>n\<close> actions.
\<close>

definition indifference :: "real list list \<Rightarrow> nat \<Rightarrow> nat \<Rightarrow> nat list \<Rightarrow> nat list \<Rightarrow> real list option" where
  "indifference U m n S S' =
     (case solve_linear
             (map (\<lambda>a. map (\<lambda>b. U ! a ! b) S' @ [- 1, 0]) S @ [replicate (length S') 1 @ [0, 1]]) of
        None \<Rightarrow> None
      | Some sol \<Rightarrow>
          (let probs = butlast sol; v = last sol;
               ps = map (\<lambda>b. dict_get (zip S' probs) b 0) [0..<n]
           in if list_all (\<lambda>x. 0 \<le> x) probs \<and>
                 list_all (\<lambda>a. a \<in> set S \<or> (\<Sum>b \<leftarrow> [0..<n]. U ! a ! b * ps ! b) \<le> v) [0..<m]
              then Some ps else None))"

definition supports :: "nat \<Rightarrow> nat list list" where
  "supports n = filter (\<lambda>S. S \<noteq> []) (subseqs [0..<n])"

definition degenerate :: "real list \<Rightarrow> bool" where
  "degenerate ps = list_all (\<lambda>x. x = 0 \<or> x = 1) ps"

definition find_mixed_nash :: "normal_form_game \<Rightarrow> exn + mixed_equilibrium list" where
  "find_mixed_nash g =
     (case nf_player_ids g of
        [i1, i2] \<Rightarrow>
          (case action_set g i1 of Inl e \<Rightarrow> Inl e | Inr A1 \<Rightarrow>
           case action_set g i2 of Inl e \<Rightarrow> Inl e | Inr A2 \<Rightarrow>
           case map_exn (\<lambda>a. map_exn (\<lambda>b. lookup_payoff g [a, b] i1) A2) A1 of Inl e \<Rightarrow> Inl e | Inr U1 \<Rightarrow>
           case map_exn (\<lambda>b. map_exn (\<lambda>a. lookup_payoff g [a, b] i2) A1) A2 of Inl e \<Rightarrow> Inl e | Inr U2 \<Rightarrow>
             Inr (concat (map (\<lambda>(S1, S2).
                    case (indifference U2 (length A2) (length A1) S2 S1,
                          indifference U1 (length A1) (length A2) S1 S2) of
                      (Some p, Some q) \<Rightarrow>
                        if degenerate p \<and> degenerate q then []
                        else [[(i1, zip A1 p), (i2, zip A2 q)]]
                    | _ \<Rightarrow> [])
                   (List.product (supports (length A1)) (supports (length A2))))))
      | _ \<Rightarrow> Inr [])"

definition NashSolver_find_all_nash ::
  "normal_form_game \<Rightarrow> exn + (string list list \<times> mixed_equilibrium list)" where
  "NashSolver_find_all_nash g =
     (case find_pure_nash g of
        Inl e \<Rightarrow> Inl e
      | Inr pure \<Rightarrow>
          (case find_mixed_nash g of
             Inl e \<Rightarrow> Inl e
           | Inr mixed \<Rightarrow> Inr (pure, mixed)))"

subsection \<open>Playing rounds and the repeated-game simulator\<close>

text \<open>
  Modelled from the spec: \<open>NormalFormGame.play_round\<close>, \<open>NormalFormGame.reset\<close> and
  \<open>game_engine.repeated.simulate_repeated_game\<close> are missing from the sources.
  \<open>play_round\<close> takes each player's action from the mapping, checks that it is in that
  player's action set (\<open>InvalidAction\<close> otherwise), looks the profile up
  (\<open>MissingPayoff\<close> when absent), appends the entry to the history and returns the
  payoffs. The simulator first requires a strategy for every player
  (\<open>MissingStrategy\<close>), clears the history when \<open>reset_between_runs\<close> is set, and then
  plays the rounds \<open>t = 0 .. num_rounds - 1\<close>: each strategy is asked with the player's id
  and the history so far, the profile is played through \<open>play_round\<close>, and the payoffs
  are added to the totals, and times \<open>discount_factor ^ t\<close> to the discounted totals when
  a discount factor is given. The result's history holds the rounds of this run. How a
  strategy chooses (its method \<open>choose\<close>) is the parameter \<open>strategy_choose\<close>.
\<close>

definition NormalFormGame_play_round ::
  "normal_form_game \<Rightarrow> (int, string) dict \<Rightarrow> (exn + (int, real) dict) \<times> normal_form_game" where
  "NormalFormGame_play_round g acts =
     (case map_exn (\<lambda>i. case map_of acts i of
                           None \<Rightarrow> Inl (InvalidAction (''no action for player '' @ str_py i))
                         | Some a \<Rightarrow>
                             (case action_set g i of
                                Inl e \<Rightarrow> Inl e
                              | Inr legal \<Rightarrow>
                                  if a \<in> set legal then Inr a
                                  else Inl (InvalidAction (''illegal action '' @ a))))
             (nf_player_ids g) of
        Inl e \<Rightarrow> (Inl e, g)
      | Inr profile \<Rightarrow>
          (case lookup_payoffs g profile of
             Inl e \<Rightarrow> (Inl e, g)
           | Inr payoffs \<Rightarrow> (Inr payoffs, g\<lparr>nf_history := nf_history g @ [(profile, payoffs)]\<rparr>)))"

definition NormalFormGame_reset :: "normal_form_game \<Rightarrow> normal_form_game" where
  "NormalFormGame_reset g = g\<lparr>nf_history := []\<rparr>"

definition add_payoffs :: "real \<Rightarrow> (int, real) dict \<Rightarrow> (int, real) dict \<Rightarrow> (int, real) dict" where
  "add_payoffs w payoffs totals = map (\<lambda>(i, total). (i, total + w * dict_get payoffs i 0)) totals"

fun simulate_rounds ::
  "(strategy \<Rightarrow> int \<Rightarrow> history_entry list \<Rightarrow> exn + string) \<Rightarrow> (int \<times> strategy) list \<Rightarrow> real option
     \<Rightarrow> nat \<Rightarrow> nat \<Rightarrow> sim_result \<Rightarrow> normal_form_game \<Rightarrow> (exn + sim_result) \<times> normal_form_game" where
  "simulate_rounds strategy_choose bound discount_factor t 0 acc g = (Inr acc, g)"
| "simulate_rounds strategy_choose bound discount_factor t (Suc n) acc g =
     (case map_exn (\<lambda>(i, s). case strategy_choose s i (nf_history g) of
                                Inl e \<Rightarrow> Inl e
                              | Inr a \<Rightarrow> Inr (i, a)) bound of
        Inl e \<Rightarrow> (Inl e, g)
      | Inr chosen \<Rightarrow>
          (case NormalFormGame_play_round g (dict_of chosen) of
             (Inl e, g') \<Rightarrow> (Inl e, g')
           | (Inr payoffs, g') \<Rightarrow>
               simulate_rounds strategy_choose bound discount_factor (Suc t) n
                 \<lparr>result_history = result_history acc @ drop (length (nf_history g)) (nf_history g'),
                  result_cumulative_payoffs = add_payoffs 1 payoffs (result_cumulative_payoffs acc),
                  result_discounted_payoffs =
                    (case discount_factor of
                       None \<Rightarrow> None
                     | Some d \<Rightarrow>
                         map_option (add_payoffs (d ^ t) payoffs) (result_discounted_payoffs acc)),
                  result_strategy_history = result_strategy_history acc @ [dict_of chosen]\<rparr>
                 g'))"

declare simulate_rounds.simps [simp del]

definition simulate_repeated_game ::
  "(strategy \<Rightarrow> int \<Rightarrow> history_entry list \<Rightarrow> exn + string) \<Rightarrow> normal_form_game \<Rightarrow> int
     \<Rightarrow> real option \<Rightarrow> bool \<Rightarrow> (exn + sim_result) \<times> normal_form_game" where
  "simulate_repeated_game strategy_choose g num_rounds discount_factor reset_between_runs =
     (case map_exn (\<lambda>p. case player_strategy p of
                           None \<Rightarrow> Inl (MissingStrategy (''no strategy for player '' @ str_py (player_id p)))
                         | Some s \<Rightarrow> Inr (player_id p, s))
             (sort_key player_id (nf_players g)) of
        Inl e \<Rightarrow> (Inl e, g)
      | Inr bound \<Rightarrow>
          (let zero = map (\<lambda>(i, s). (i, 0)) bound in
           simulate_rounds strategy_choose bound discount_factor 0 (nat num_rounds)
             \<lparr>result_history = [],
              result_cumulative_payoffs = zero,
              result_discounted_payoffs = (case discount_factor of None \<Rightarrow> None | Some d \<Rightarrow> Some zero),
              result_strategy_history = []\<rparr>
             (if reset_between_runs then NormalFormGame_reset g else g)))"

section \<open>backend/main.py: the analysis handlers\<close>

text \<open>\<open>key.split(",")\<close>: the pieces between the commas, empty pieces included.\<close>

fun split_comma :: "string \<Rightarrow> string list" where
  "split_comma [] = [[]]"
| "split_comma (c # cs) =
     (if c = CHR '','' then [] # split_comma cs
      else (case split_comma cs of
              [] \<Rightarrow> [[c]]
            | w # ws \<Rightarrow> (c # w) # ws))"


text \<open>
  \<open>{i: payoffs[idx] for idx, i in enumerate(player_ids)}\<close>; an index beyond the list
  raises \<open>IndexError\<close>.
\<close>

definition payoffs_by_player :: "int list \<Rightarrow> real list \<Rightarrow> exn + (int, real) dict" where
  "payoffs_by_player player_ids payoffs =
     dict_comp Inr
       (\<lambda>idx. if idx < length payoffs then Inr (payoffs ! idx)
              else Inl (IndexError ''list index out of range''))
       (map (\<lambda>(idx, i). (i, idx)) (enumerate 0 player_ids))"

text \<open>
  The loop that fills \<open>payoff_matrix\<close> from the request:
  \<open>payoff_matrix[tuple(key.split(","))] = {i: payoffs[idx] for ...}\<close> for each item.
\<close>

definition parse_payoff_matrix ::
  "int list \<Rightarrow> (string, real list) dict \<Rightarrow> exn + (string list, (int, real) dict) dict" where
  "parse_payoff_matrix player_ids request_payoff_matrix =
     dict_comp (\<lambda>key. Inr (split_comma key)) (payoffs_by_player player_ids) request_payoff_matrix"

text \<open>\<open>{i: request.player_actions[str(i)] for i in player_ids}\<close>.\<close>

definition parse_player_actions ::
  "(string, string list) dict \<Rightarrow> int list \<Rightarrow> exn + (int, string list) dict" where
  "parse_player_actions request_player_actions player_ids =
     dict_comp Inr
       (\<lambda>i. case map_of request_player_actions (str_py i) of
              None \<Rightarrow> Inl (KeyError (repr_py (str_py i)))
            | Some acts \<Rightarrow> Inr acts)
       (map (\<lambda>i. (i, i)) player_ids)"

text \<open>
  The reconstruction of the game that \<open>compute_nash_equilibrium\<close> (lines 221 to 232) and
  \<open>analyze_best_response\<close> (lines 299 to 309) both carry out, statement by statement.
\<close>

definition reconstruct_game ::
  "(string, real list) dict \<Rightarrow> (string, string list) dict \<Rightarrow> exn + normal_form_game" where
  "reconstruct_game request_payoff_matrix request_player_actions =
     (case map_exn int_py (map fst request_player_actions) of
        Inl e \<Rightarrow> Inl e
      | Inr ks \<Rightarrow>
          (let player_ids = sort ks;
               players = map (\<lambda>i. Player i (''Player '' @ str_py (i + 1)) DummyStrategy) player_ids
           in case parse_player_actions request_player_actions player_ids of
                Inl e \<Rightarrow> Inl e
              | Inr actions \<Rightarrow>
                  (case parse_payoff_matrix player_ids request_payoff_matrix of
                     Inl e \<Rightarrow> Inl e
                   | Inr payoff_matrix \<Rightarrow> Inr (NormalFormGame players actions payoff_matrix))))"

definition compute_nash_equilibrium :: "nash_equilibrium_request \<Rightarrow> exn + response" where
  "compute_nash_equilibrium request =
     (case request of NashEquilibriumRequest request_payoff_matrix request_player_actions \<Rightarrow>
        (case reconstruct_game request_payoff_matrix request_player_actions of
           Inl e \<Rightarrow> Inl (HTTPException 400 (''Invalid request: '' @ str_exn e))
         | Inr g \<Rightarrow>
             (case NashSolver_find_all_nash g of
                Inl e \<Rightarrow> Inl (HTTPException 400 (''Invalid request: '' @ str_exn e))
              | Inr (pure, mixed) \<Rightarrow> Inr (NashEquilibriumResponse pure mixed))))"

definition compute_cournot_equilibrium :: "cournot_equilibrium_request \<Rightarrow> exn + response" where
  "compute_cournot_equilibrium request =
     (case request of CournotEquilibriumRequest demand_intercept demand_slope request_marginal_costs \<Rightarrow>
        (case dict_comp int_py Inr request_marginal_costs of
           Inl e \<Rightarrow> Inl (HTTPException 400 (''Invalid request: '' @ str_exn e))
         | Inr marginal_costs \<Rightarrow>
             (let players = [Player 0 ''Firm 1'' DummyStrategy, Player 1 ''Firm 2'' DummyStrategy];
                  g = CournotGame players demand_intercept demand_slope marginal_costs
              in case CournotGame_compute_equilibrium g of
                   Inl e \<Rightarrow> Inl (HTTPException 400 (''Invalid request: '' @ str_exn e))
                 | Inr equilibrium \<Rightarrow>
                     Inr (CournotEquilibriumResponse
                            (str_keys (eq_quantities equilibrium))
                            (eq_price equilibrium)
                            (str_keys (eq_payoffs equilibrium))))))"

text \<open>
  \<open>BestResponseAnalyzer.get_deviation_graph\<close> is missing from the sources; it is the
  parameter \<open>get_deviation_graph\<close>, returning the nodes, the edges and the Nash nodes.
\<close>

definition analyze_best_response ::
  "(normal_form_game \<Rightarrow> exn + json list \<times> json list \<times> int list) \<Rightarrow> best_response_request
     \<Rightarrow> exn + response" where
  "analyze_best_response get_deviation_graph request =
     (case request of BestResponseRequest request_payoff_matrix request_player_actions \<Rightarrow>
        (case reconstruct_game request_payoff_matrix request_player_actions of
           Inl e \<Rightarrow> Inl (HTTPException 400 (''Invalid request: '' @ str_exn e))
         | Inr g \<Rightarrow>
             (case get_deviation_graph g of
                Inl e \<Rightarrow> Inl (HTTPException 400 (''Invalid request: '' @ str_exn e))
              | Inr (nodes, edges, nash_nodes) \<Rightarrow> Inr (BestResponseResponse nodes edges nash_nodes))))"

section \<open>The application\<close>

text \<open>
  One request to the application: the route with its path parameter and body. The
  application runs the handler of the route on the process-wide session manager; the
  handlers of the three analysis routes take no session manager.
\<close>

datatype api_request =
    GET_root
  | GET_games
  | POST_games_create create_game_request
  | GET_games_session string
  | POST_games_play string play_round_request
  | POST_games_simulate string simulate_request
  | POST_games_reset string
  | POST_equilibrium_nash nash_equilibrium_request
  | POST_equilibrium_cournot cournot_equilibrium_request
  | POST_analyze_best_response best_response_request

record ('g, 'f) backend =
  backend_engine :: "'g engine"
  backend_templates :: "'g templates"
  backend_AVAILABLE_GAMES :: "(string, 'f game_info) dict"
  backend_get_deviation_graph :: "normal_form_game \<Rightarrow> exn + json list \<times> json list \<times> int list"

fun app ::
  "('g, 'f) backend \<Rightarrow> string \<Rightarrow> 'g session_manager \<Rightarrow> api_request
     \<Rightarrow> (exn + response) \<times> 'g session_manager" where
  "app B uuid4 sm GET_root = (Inr root, sm)"
| "app B uuid4 sm GET_games = (Inr (list_games (backend_AVAILABLE_GAMES B)), sm)"
| "app B uuid4 sm (POST_games_create request) =
     create_game (backend_engine B) (backend_templates B) (backend_AVAILABLE_GAMES B) uuid4 sm request"
| "app B uuid4 sm (GET_games_session session_id) = get_game_session (backend_engine B) sm session_id"
| "app B uuid4 sm (POST_games_play session_id request) =
     play_round (backend_engine B) sm session_id request"
| "app B uuid4 sm (POST_games_simulate session_id request) =
     simulate_game (backend_engine B) sm session_id request"
| "app B uuid4 sm (POST_games_reset session_id) = reset_game (backend_engine B) sm session_id"
| "app B uuid4 sm (POST_equilibrium_nash request) = (compute_nash_equilibrium request, sm)"
| "app B uuid4 sm (POST_equilibrium_cournot request) = (compute_cournot_equilibrium request, sm)"
| "app B uuid4 sm (POST_analyze_best_response request) =
     (analyze_best_response (backend_get_deviation_graph B) request, sm)"

section \<open>Sample values\<close>

text \<open>
  Concrete values on which the theorems below are run. The templates here return a
  record of what they are called with, and the engine that goes with them plays nothing.
\<close>

definition recording_templates :: "json list templates" where
  "recording_templates =
     \<lparr>create_prisoners_dilemma = (\<lambda>player_names strategies payoffs. Inr [JStr ''prisoners_dilemma'', payoffs]),
      create_cournot_game = (\<lambda>player_names demand_intercept demand_slope marginal_costs.
         Inr [JStr ''cournot'', demand_intercept, demand_slope, marginal_costs]),
      create_auction_game = (\<lambda>player_names private_values num_players.
         Inr [JStr ''auction'', private_values, num_players])\<rparr>"

definition recording_engine :: "json list engine" where
  "recording_engine =
     \<lparr>get_state_of = (\<lambda>g. []),
      class_of = (\<lambda>g. IsOtherGame),
      play_round_of = (\<lambda>g actions. (Inl (NotImplementedError []), g)),
      history_of = (\<lambda>g. []),
      reset_of = (\<lambda>g. g),
      simulate_of = (\<lambda>g num_rounds discount_factor reset_between_runs. (Inl (NotImplementedError []), g))\<rparr>"

definition sample_AVAILABLE_GAMES :: "(string, unit game_info) dict" where
  "sample_AVAILABLE_GAMES =
     [(''prisoners_dilemma'', \<lparr>info_name = ''Prisoners Dilemma'', info_description = [], info_type = ''normal_form'', info_factory = ()\<rparr>),
      (''cournot'', \<lparr>info_name = ''Cournot'', info_description = [], info_type = ''cournot'', info_factory = ()\<rparr>),
      (''auction'', \<lparr>info_name = ''Auction'', info_description = [], info_type = ''normal_form'', info_factory = ()\<rparr>)]"

text \<open>
  Modelled from the spec: the strategies of \<open>game_engine.strategies\<close> are missing from the
  sources. How the deterministic variants choose, between two players with the ids 0 and
  1 and the actions \<open>Cooperate\<close> and \<open>Defect\<close>: the constant strategies return their action;
  \<open>TitForTat\<close> cooperates on an empty history and then mirrors the opponent's latest
  action; \<open>GrimTrigger\<close> cooperates until some entry of the history shows a defection of
  the opponent. The random strategy needs a random source and is not covered here.
\<close>

definition opponent_action :: "int \<Rightarrow> history_entry \<Rightarrow> string" where
  "opponent_action i entry =
     (case fst entry of
        [a0, a1] \<Rightarrow> if i = 0 then a1 else a0
      | _ \<Rightarrow> [])"

fun choose_two_player :: "strategy \<Rightarrow> int \<Rightarrow> history_entry list \<Rightarrow> exn + string" where
  "choose_two_player AlwaysCooperate i h = Inr ''Cooperate''"
| "choose_two_player AlwaysDefect i h = Inr ''Defect''"
| "choose_two_player TitForTat i h =
     (if h = [] then Inr ''Cooperate'' else Inr (opponent_action i (last h)))"
| "choose_two_player GrimTrigger i h =
     (if list_ex (\<lambda>entry. opponent_action i entry = ''Defect'') h then Inr ''Defect''
      else Inr ''Cooperate'')"
| "choose_two_player RandomStrategy i h = Inl (NotImplementedError ''no random source'')"
| "choose_two_player DummyStrategy i h = Inl (NotImplementedError [])"

text \<open>
  An engine over the normal-form game above. \<open>get_state()\<close> and
  \<open>get_payoff_matrix_dict()\<close>, of which the specification says nothing, are left empty.
\<close>

definition normal_form_engine :: "normal_form_game engine" where
  "normal_form_engine =
     \<lparr>get_state_of = (\<lambda>g. []),
      class_of = (\<lambda>g. IsNormalFormGame JNull (nf_actions g)),
      play_round_of = NormalFormGame_play_round,
      history_of = nf_history,
      reset_of = NormalFormGame_reset,
      simulate_of = simulate_repeated_game choose_two_player\<rparr>"

definition prisoners_dilemma :: normal_form_game where
  "prisoners_dilemma =
     NormalFormGame [Player 0 ''Player 1'' TitForTat, Player 1 ''Player 2'' AlwaysDefect]
       [(0, [''Cooperate'', ''Defect'']), (1, [''Cooperate'', ''Defect''])]
       [([''Cooperate'', ''Cooperate''], [(0, 3), (1, 3)]),
        ([''Cooperate'', ''Defect''], [(0, 0), (1, 5)]),
        ([''Defect'', ''Cooperate''], [(0, 5), (1, 0)]),
        ([''Defect'', ''Defect''], [(0, 1), (1, 1)])]"

text \<open>
  The Prisoners' Dilemma of the specification, with the payoffs \<open>CC = (3, 3)\<close>,
  \<open>CD = (0, 5)\<close>, \<open>DC = (5, 0)\<close> and \<open>DD = (1, 1)\<close>, for two players and two action
  tokens, and the request that describes it to the analysis handlers.
\<close>

definition pd_game :: "int \<Rightarrow> int \<Rightarrow> player \<Rightarrow> player \<Rightarrow> string \<Rightarrow> string \<Rightarrow> normal_form_game" where
  "pd_game i1 i2 p1 p2 c d =
     NormalFormGame [p1, p2]
       [(i1, [c, d]), (i2, [c, d])]
       [([c, c], [(i1, 3), (i2, 3)]), ([c, d], [(i1, 0), (i2, 5)]),
        ([d, c], [(i1, 5), (i2, 0)]), ([d, d], [(i1, 1), (i2, 1)])]"

definition pd_request_payoff_matrix :: "(string, real list) dict" where
  "pd_request_payoff_matrix =
     [(''C,C'', [3, 3]), (''C,D'', [0, 5]), (''D,C'', [5, 0]), (''D,D'', [1, 1])]"

definition pd_request_player_actions :: "(string, string list) dict" where
  "pd_request_player_actions = [(''0'', [''C'', ''D'']), (''1'', [''C'', ''D''])]"

definition sample_backend :: "(json list, unit) backend" where
  "sample_backend =
     \<lparr>backend_engine = recording_engine,
      backend_templates = recording_templates,
      backend_AVAILABLE_GAMES = sample_AVAILABLE_GAMES,
      backend_get_deviation_graph = (\<lambda>g. Inr ([], [], []))\<rparr>"


text \<open>The same game after one played round, and a session that holds it.\<close>

definition prisoners_dilemma_played :: normal_form_game where
  "prisoners_dilemma_played =
     prisoners_dilemma\<lparr>nf_history := [([''Cooperate'', ''Defect''], [(0, 0), (1, 5)])]\<rparr>"

definition pd_played_session_manager :: "normal_form_game session_manager" where
  "pd_played_session_manager =
     \<lparr>sessions = [(''s'', \<lparr>session_game = prisoners_dilemma_played,
                            session_game_type = Some ''prisoners_dilemma'',
                            session_created_at = None\<rparr>)]\<rparr>"

section \<open>Facts about the Python values\<close>







lemma str_nat_not_Nil: "str_nat n \<noteq> []"
  by (subst str_nat.simps) simp







lemma str_py_0: "str_py 0 = ''0''"
  by (simp add: str_py_def str_nat.simps digit_char_def)

lemma str_py_1: "str_py 1 = ''1''"
  by (simp add: str_py_def str_nat.simps digit_char_def)

lemmas int_py_eval = int_py_def strip_def is_space_def is_digit_def digit_val_def Let_def
lemmas str_py_eval = str_py_def str_nat.simps digit_char_def

















section \<open>Properties of the session manager\<close>

text \<open>
  C4. For every state of the session manager, every game \<open>g\<close> and game type \<open>t\<close>,
  \<open>create_session(game=g, game_type=t)\<close> returns an id under which \<open>get_session\<close> then
  finds an entry whose game is \<open>g\<close> and whose game type is \<open>t\<close>, and the entries under
  every other id are as before.
\<close>

theorem create_session_get_session:
  "create_session sm None g t uuid4 = (sid, sm') \<Longrightarrow>
     (\<exists>e. get_session sm' sid = Some e \<and> session_game e = g \<and> session_game_type e = t) \<and>
     (\<forall>other. other \<noteq> sid \<longrightarrow> get_session sm' other = get_session sm other)"
  by (auto simp: create_session_def get_session_def update_conv')

theorem create_session_get_session_witness:
  "create_session \<lparr>sessions = [(''a'', \<lparr>session_game = ''pd'', session_game_type = Some ''cournot'', session_created_at = None\<rparr>)]\<rparr>
      None ''auc'' (Some ''auction'') ''b''
     = (''b'', \<lparr>sessions = [(''a'', \<lparr>session_game = ''pd'', session_game_type = Some ''cournot'', session_created_at = None\<rparr>),
                            (''b'', \<lparr>session_game = ''auc'', session_game_type = Some ''auction'', session_created_at = None\<rparr>)]\<rparr>)
   \<and> (\<exists>e. get_session \<lparr>sessions = [(''a'', \<lparr>session_game = ''pd'', session_game_type = Some ''cournot'', session_created_at = None\<rparr>),
                            (''b'', \<lparr>session_game = ''auc'', session_game_type = Some ''auction'', session_created_at = None\<rparr>)]\<rparr> ''b'' = Some e
          \<and> session_game e = ''auc'' \<and> session_game_type e = Some ''auction'')
   \<and> get_session \<lparr>sessions = [(''a'', \<lparr>session_game = ''pd'', session_game_type = Some ''cournot'', session_created_at = None\<rparr>),
                            (''b'', \<lparr>session_game = ''auc'', session_game_type = Some ''auction'', session_created_at = None\<rparr>)]\<rparr> ''a''
     = get_session \<lparr>sessions = [(''a'', \<lparr>session_game = ''pd'', session_game_type = Some ''cournot'', session_created_at = None\<rparr>)]\<rparr> ''a''"
proof -
  have run: "create_session \<lparr>sessions = [(''a'', \<lparr>session_game = ''pd'', session_game_type = Some ''cournot'', session_created_at = None\<rparr>)]\<rparr>
      None ''auc'' (Some ''auction'') ''b''
     = (''b'', \<lparr>sessions = [(''a'', \<lparr>session_game = ''pd'', session_game_type = Some ''cournot'', session_created_at = None\<rparr>),
                            (''b'', \<lparr>session_game = ''auc'', session_game_type = Some ''auction'', session_created_at = None\<rparr>)]\<rparr>)"
    by (simp add: create_session_def Let_def)
  from create_session_get_session [OF run] run show ?thesis
    by simp
qed

text \<open>
  C5. \<open>get_session(sid)\<close> is \<open>None\<close> exactly when \<open>sid\<close> is not a key of the stored
  mapping; \<open>delete_session(sid)\<close> returns \<open>True\<close> and removes that entry only when \<open>sid\<close> is
  stored, and returns \<open>False\<close> and leaves the mapping as it is otherwise.
\<close>

theorem get_delete_session:
  "(get_session sm sid = None \<longleftrightarrow> sid \<notin> fst ` set (sessions sm)) \<and>
   (sid \<in> fst ` set (sessions sm) \<longrightarrow>
      (\<exists>sm'. delete_session sm sid = (True, sm') \<and>
             get_session sm' sid = None \<and>
             (\<forall>other. other \<noteq> sid \<longrightarrow> get_session sm' other = get_session sm other))) \<and>
   (sid \<notin> fst ` set (sessions sm) \<longrightarrow> delete_session sm sid = (False, sm))"
  by (simp add: get_session_def delete_session_def map_of_eq_None_iff delete_conv' delete_notin_dom)

theorem get_delete_session_witness:
  "get_session \<lparr>sessions = [(''a'', \<lparr>session_game = ''pd'', session_game_type = Some ''cournot'', session_created_at = None\<rparr>)]\<rparr> ''a'' \<noteq> None
   \<and> delete_session \<lparr>sessions = [(''a'', \<lparr>session_game = ''pd'', session_game_type = Some ''cournot'', session_created_at = None\<rparr>)]\<rparr> ''a''
       = (True, \<lparr>sessions = []\<rparr>)
   \<and> delete_session \<lparr>sessions = [(''a'', \<lparr>session_game = ''pd'', session_game_type = Some ''cournot'', session_created_at = None\<rparr>)]\<rparr> ''z''
       = (False, \<lparr>sessions = [(''a'', \<lparr>session_game = ''pd'', session_game_type = Some ''cournot'', session_created_at = None\<rparr>)]\<rparr>)"
  using get_delete_session [of "\<lparr>sessions = [(''a'', \<lparr>session_game = ''pd'', session_game_type = Some ''cournot'', session_created_at = None\<rparr>)]\<rparr>" "''a''"]
        get_delete_session [of "\<lparr>sessions = [(''a'', \<lparr>session_game = ''pd'', session_game_type = Some ''cournot'', session_created_at = None\<rparr>)]\<rparr>" "''z''"]
  by (simp add: delete_session_def)

section \<open>Properties of the factory\<close>

lemma create_strategy_unknown:
  "strategy_name \<notin> fst ` set STRATEGY_MAP \<Longrightarrow>
     create_strategy strategy_name = Inl (ValueError (''Unknown strategy: '' @ strategy_name))"
proof -
  assume "strategy_name \<notin> fst ` set STRATEGY_MAP"
  then have "map_of STRATEGY_MAP strategy_name = None"
    by (simp add: map_of_eq_None_iff)
  then show ?thesis
    by (simp add: create_strategy_def)
qed

lemma create_strategy_known:
  "strategy_name \<in> fst ` set STRATEGY_MAP \<Longrightarrow> \<exists>c. create_strategy strategy_name = Inr c"
  by (auto simp: create_strategy_def STRATEGY_MAP_def)

lemma map_exn_create_strategy_unknown:
  "\<not> set ss \<subseteq> fst ` set STRATEGY_MAP \<Longrightarrow>
     \<exists>bad. bad \<in> set ss \<and> bad \<notin> fst ` set STRATEGY_MAP \<and>
       map_exn create_strategy ss = Inl (ValueError (''Unknown strategy: '' @ bad))"
proof (induction ss)
  case Nil
  then show ?case by simp
next
  case (Cons s ss)
  show ?case
  proof (cases "s \<in> fst ` set STRATEGY_MAP")
    case True
    then obtain c where c: "create_strategy s = Inr c"
      using create_strategy_known by blast
    from True Cons.prems have "\<not> set ss \<subseteq> fst ` set STRATEGY_MAP" by auto
    from Cons.IH [OF this] obtain bad where "bad \<in> set ss" "bad \<notin> fst ` set STRATEGY_MAP"
      "map_exn create_strategy ss = Inl (ValueError (''Unknown strategy: '' @ bad))" by blast
    then show ?thesis using c by auto
  next
    case False
    then show ?thesis using create_strategy_unknown [OF False] by auto
  qed
qed

text \<open>
  C6. A factory miss is rejected with a message that names the offending token:
  \<open>create_strategy\<close> raises \<open>ValueError\<close> for every name outside the five registered
  names and returns the mapped class for each registered name;
  \<open>create_game_from_template\<close> raises \<open>ValueError\<close> for every game type that is not in
  \<open>AVAILABLE_GAMES\<close>; \<open>create_game\<close> turns either error into the status 400 with that
  message and stores nothing; there is no second attempt.
\<close>

theorem factory_miss:
  "(strategy_name \<notin> {''AlwaysCooperate'', ''AlwaysDefect'', ''TitForTat'', ''GrimTrigger'', ''RandomStrategy''} \<longrightarrow>
      create_strategy strategy_name = Inl (ValueError (''Unknown strategy: '' @ strategy_name))) \<and>
   create_strategy ''AlwaysCooperate'' = Inr AlwaysCooperate \<and>
   create_strategy ''AlwaysDefect'' = Inr AlwaysDefect \<and>
   create_strategy ''TitForTat'' = Inr TitForTat \<and>
   create_strategy ''GrimTrigger'' = Inr GrimTrigger \<and>
   create_strategy ''RandomStrategy'' = Inr RandomStrategy \<and>
   (game_type \<notin> fst ` set AVAILABLE_GAMES \<longrightarrow>
      create_game_from_template T AVAILABLE_GAMES game_type params player_names strategies
        = Inl (ValueError (''Unknown game type: '' @ game_type)) \<and>
      create_game E T AVAILABLE_GAMES uuid4 sm (CreateGameRequest game_type params player_names strategies)
        = (Inl (HTTPException 400 (''Unknown game type: '' @ game_type)), sm)) \<and>
   (game_type \<in> fst ` set AVAILABLE_GAMES \<and> strategies = Some ss \<and>
    \<not> set ss \<subseteq> {''AlwaysCooperate'', ''AlwaysDefect'', ''TitForTat'', ''GrimTrigger'', ''RandomStrategy''} \<longrightarrow>
      (\<exists>bad. bad \<in> set ss \<and>
         create_game_from_template T AVAILABLE_GAMES game_type params player_names strategies
           = Inl (ValueError (''Unknown strategy: '' @ bad)) \<and>
         create_game E T AVAILABLE_GAMES uuid4 sm (CreateGameRequest game_type params player_names strategies)
           = (Inl (HTTPException 400 (''Unknown strategy: '' @ bad)), sm)))"
proof -
  have keys: "fst ` set STRATEGY_MAP
      = {''AlwaysCooperate'', ''AlwaysDefect'', ''TitForTat'', ''GrimTrigger'', ''RandomStrategy''}"
    by (simp add: STRATEGY_MAP_def)
  have unknown: "strategy_name \<notin> {''AlwaysCooperate'', ''AlwaysDefect'', ''TitForTat'', ''GrimTrigger'', ''RandomStrategy''} \<longrightarrow>
      create_strategy strategy_name = Inl (ValueError (''Unknown strategy: '' @ strategy_name))"
    using create_strategy_unknown [of strategy_name] unfolding keys by blast
  have known: "create_strategy ''AlwaysCooperate'' = Inr AlwaysCooperate"
    "create_strategy ''AlwaysDefect'' = Inr AlwaysDefect"
    "create_strategy ''TitForTat'' = Inr TitForTat"
    "create_strategy ''GrimTrigger'' = Inr GrimTrigger"
    "create_strategy ''RandomStrategy'' = Inr RandomStrategy"
    by (simp_all add: create_strategy_def STRATEGY_MAP_def)
  have game: "game_type \<notin> fst ` set AVAILABLE_GAMES \<longrightarrow>
      create_game_from_template T AVAILABLE_GAMES game_type params player_names strategies
        = Inl (ValueError (''Unknown game type: '' @ game_type)) \<and>
      create_game E T AVAILABLE_GAMES uuid4 sm (CreateGameRequest game_type params player_names strategies)
        = (Inl (HTTPException 400 (''Unknown game type: '' @ game_type)), sm)"
  proof
    assume "game_type \<notin> fst ` set AVAILABLE_GAMES"
    then have none: "map_of AVAILABLE_GAMES game_type = None"
      by (simp add: map_of_eq_None_iff)
    have t: "create_game_from_template T AVAILABLE_GAMES game_type params player_names strategies
        = Inl (ValueError (''Unknown game type: '' @ game_type))"
      unfolding create_game_from_template_def none by simp
    show "create_game_from_template T AVAILABLE_GAMES game_type params player_names strategies
        = Inl (ValueError (''Unknown game type: '' @ game_type)) \<and>
      create_game E T AVAILABLE_GAMES uuid4 sm (CreateGameRequest game_type params player_names strategies)
        = (Inl (HTTPException 400 (''Unknown game type: '' @ game_type)), sm)"
      using t by (simp add: create_game_def)
  qed
  have strat: "game_type \<in> fst ` set AVAILABLE_GAMES \<and> strategies = Some ss \<and>
    \<not> set ss \<subseteq> {''AlwaysCooperate'', ''AlwaysDefect'', ''TitForTat'', ''GrimTrigger'', ''RandomStrategy''} \<longrightarrow>
      (\<exists>bad. bad \<in> set ss \<and>
         create_game_from_template T AVAILABLE_GAMES game_type params player_names strategies
           = Inl (ValueError (''Unknown strategy: '' @ bad)) \<and>
         create_game E T AVAILABLE_GAMES uuid4 sm (CreateGameRequest game_type params player_names strategies)
           = (Inl (HTTPException 400 (''Unknown strategy: '' @ bad)), sm))"
  proof (intro impI, elim conjE)
    assume g: "game_type \<in> fst ` set AVAILABLE_GAMES" and s: "strategies = Some ss"
      and n: "\<not> set ss \<subseteq> {''AlwaysCooperate'', ''AlwaysDefect'', ''TitForTat'', ''GrimTrigger'', ''RandomStrategy''}"
    from g obtain info where info: "map_of AVAILABLE_GAMES game_type = Some info"
      by (metis map_of_eq_None_iff not_Some_eq)
    from n have "\<not> set ss \<subseteq> fst ` set STRATEGY_MAP" unfolding keys .
    from map_exn_create_strategy_unknown [OF this] obtain bad where bad: "bad \<in> set ss"
      "map_exn create_strategy ss = Inl (ValueError (''Unknown strategy: '' @ bad))" by blast
    from n obtain x xs where ss: "ss = x # xs" by (cases ss) auto
    have t: "create_game_from_template T AVAILABLE_GAMES game_type params player_names strategies
           = Inl (ValueError (''Unknown strategy: '' @ bad))"
      unfolding create_game_from_template_def info s using bad(2) unfolding ss by simp
    show "\<exists>bad. bad \<in> set ss \<and>
         create_game_from_template T AVAILABLE_GAMES game_type params player_names strategies
           = Inl (ValueError (''Unknown strategy: '' @ bad)) \<and>
         create_game E T AVAILABLE_GAMES uuid4 sm (CreateGameRequest game_type params player_names strategies)
           = (Inl (HTTPException 400 (''Unknown strategy: '' @ bad)), sm)"
      using bad(1) t by (auto simp: create_game_def)
  qed
  from unknown known game strat show ?thesis by blast
qed

theorem factory_miss_witness:
  "create_strategy ''Foo'' = Inl (ValueError ''Unknown strategy: Foo'') \<and>
   create_game_from_template recording_templates sample_AVAILABLE_GAMES ''chess'' [] None None
     = Inl (ValueError ''Unknown game type: chess'') \<and>
   create_game recording_engine recording_templates sample_AVAILABLE_GAMES ''id-1'' \<lparr>sessions = []\<rparr>
       (CreateGameRequest ''chess'' [] None None)
     = (Inl (HTTPException 400 ''Unknown game type: chess''), \<lparr>sessions = []\<rparr>) \<and>
   create_game recording_engine recording_templates sample_AVAILABLE_GAMES ''id-1'' \<lparr>sessions = []\<rparr>
       (CreateGameRequest ''cournot'' [] None (Some [''TitForTat'', ''Foo'']))
     = (Inl (HTTPException 400 ''Unknown strategy: Foo''), \<lparr>sessions = []\<rparr>)"
proof -
  have a: "''Foo'' \<notin> {''AlwaysCooperate'', ''AlwaysDefect'', ''TitForTat'', ''GrimTrigger'', ''RandomStrategy''}"
    by simp
  have b: "''chess'' \<notin> fst ` set sample_AVAILABLE_GAMES"
    by (simp add: sample_AVAILABLE_GAMES_def)
  have c: "''cournot'' \<in> fst ` set sample_AVAILABLE_GAMES"
    by (simp add: sample_AVAILABLE_GAMES_def)
  have d: "\<not> set [''TitForTat'', ''Foo''] \<subseteq> {''AlwaysCooperate'', ''AlwaysDefect'', ''TitForTat'', ''GrimTrigger'', ''RandomStrategy''}"
    by simp
  note f1 = factory_miss [of "''Foo''" "''chess''" sample_AVAILABLE_GAMES recording_templates "[]" None None
      recording_engine "''id-1''" "\<lparr>sessions = []\<rparr>" "[''TitForTat'', ''Foo'']"]
  have e: "create_game recording_engine recording_templates sample_AVAILABLE_GAMES ''id-1'' \<lparr>sessions = []\<rparr>
       (CreateGameRequest ''cournot'' [] None (Some [''TitForTat'', ''Foo'']))
     = (Inl (HTTPException 400 ''Unknown strategy: Foo''), \<lparr>sessions = []\<rparr>)"
    by (simp add: create_game_def create_game_from_template_def sample_AVAILABLE_GAMES_def
          create_strategy_def STRATEGY_MAP_def)
  from f1 a b e show ?thesis by simp
qed

section \<open>The Cournot defaults\<close>








section \<open>The Nash solver on the Prisoners' Dilemma\<close>

lemma pd_ids:
  assumes "player_id p1 = i1" "player_id p2 = i2" "i1 < i2"
  shows "nf_player_ids (pd_game i1 i2 p1 p2 c d) = [i1, i2]"
  using assms by (simp add: nf_player_ids_def pd_game_def NormalFormGame_def)

lemma pd_payoff:
  assumes "i1 < i2" "c \<noteq> d"
  shows "lookup_payoff (pd_game i1 i2 p1 p2 c d) [c, c] i1 = Inr 3"
    "lookup_payoff (pd_game i1 i2 p1 p2 c d) [c, c] i2 = Inr 3"
    "lookup_payoff (pd_game i1 i2 p1 p2 c d) [c, d] i1 = Inr 0"
    "lookup_payoff (pd_game i1 i2 p1 p2 c d) [c, d] i2 = Inr 5"
    "lookup_payoff (pd_game i1 i2 p1 p2 c d) [d, c] i1 = Inr 5"
    "lookup_payoff (pd_game i1 i2 p1 p2 c d) [d, c] i2 = Inr 0"
    "lookup_payoff (pd_game i1 i2 p1 p2 c d) [d, d] i1 = Inr 1"
    "lookup_payoff (pd_game i1 i2 p1 p2 c d) [d, d] i2 = Inr 1"
  using assms by (simp_all add: lookup_payoff_def lookup_payoffs_def pd_game_def NormalFormGame_def)

lemma pd_action_set:
  assumes "i1 < i2"
  shows "action_set (pd_game i1 i2 p1 p2 c d) i1 = Inr [c, d]"
    "action_set (pd_game i1 i2 p1 p2 c d) i2 = Inr [c, d]"
  using assms by (simp_all add: action_set_def pd_game_def NormalFormGame_def)

lemma pd_pure:
  assumes "player_id p1 = i1" "player_id p2 = i2" "i1 < i2" "c \<noteq> d"
  shows "find_pure_nash (pd_game i1 i2 p1 p2 c d) = Inr [[d, d]]"
  using assms(3,4)
  by (simp add: find_pure_nash_def all_profiles_def is_pure_nash_def can_improve_def
        pd_ids [OF assms(1,2,3)] pd_payoff pd_action_set enumerate_eq_zip)

lemma supports_two: "supports (Suc (Suc 0)) = [[0, Suc 0], [0], [Suc 0]]"
  by (simp add: supports_def)

lemmas indifference_eval =
  indifference_def solve_linear_def List.extract_def Let_def dict_get_def

lemma pd_indifference:
  "indifference [[3, 0], [5, 1]] (Suc (Suc 0)) (Suc (Suc 0)) [0, Suc 0] [0, Suc 0] = None"
  "indifference [[3, 0], [5, 1]] (Suc (Suc 0)) (Suc (Suc 0)) [0, Suc 0] [0] = None"
  "indifference [[3, 0], [5, 1]] (Suc (Suc 0)) (Suc (Suc 0)) [0, Suc 0] [Suc 0] = None"
  "indifference [[3, 0], [5, 1]] (Suc (Suc 0)) (Suc (Suc 0)) [0] [0, Suc 0] = None"
  "indifference [[3, 0], [5, 1]] (Suc (Suc 0)) (Suc (Suc 0)) [0] [0] = None"
  "indifference [[3, 0], [5, 1]] (Suc (Suc 0)) (Suc (Suc 0)) [0] [Suc 0] = None"
  "indifference [[3, 0], [5, 1]] (Suc (Suc 0)) (Suc (Suc 0)) [Suc 0] [0, Suc 0] = None"
  "indifference [[3, 0], [5, 1]] (Suc (Suc 0)) (Suc (Suc 0)) [Suc 0] [0] = Some [1, 0]"
  "indifference [[3, 0], [5, 1]] (Suc (Suc 0)) (Suc (Suc 0)) [Suc 0] [Suc 0] = Some [0, 1]"
  by (simp_all add: indifference_eval)

lemma pd_mixed:
  assumes "player_id p1 = i1" "player_id p2 = i2" "i1 < i2" "c \<noteq> d"
  shows "find_mixed_nash (pd_game i1 i2 p1 p2 c d) = Inr []"
  using assms(3,4)
  by (simp add: find_mixed_nash_def pd_ids [OF assms(1,2,3)] pd_payoff pd_action_set supports_two
        pd_indifference degenerate_def)

lemma reconstruct_pd:
  "reconstruct_game pd_request_payoff_matrix pd_request_player_actions
     = Inr (pd_game 0 1 (Player 0 ''Player 1'' DummyStrategy) (Player 1 ''Player 2'' DummyStrategy)
              ''C'' ''D'')"
  by (simp add: reconstruct_game_def pd_request_payoff_matrix_def pd_request_player_actions_def
        int_py_eval str_py_eval parse_player_actions_def parse_payoff_matrix_def
        payoffs_by_player_def dict_comp_def pd_game_def)

lemma pd_request_response:
  "compute_nash_equilibrium (NashEquilibriumRequest pd_request_payoff_matrix pd_request_player_actions)
     = Inr (NashEquilibriumResponse [[''D'', ''D'']] [])"
  by (simp add: compute_nash_equilibrium_def reconstruct_pd NashSolver_find_all_nash_def
        pd_pure pd_mixed Player_def)

text \<open>
  C8. For a two-player game with the Prisoners' Dilemma payoffs \<open>CC = (3, 3)\<close>,
  \<open>CD = (0, 5)\<close>, \<open>DC = (5, 0)\<close>, \<open>DD = (1, 1)\<close>, \<open>find_all_nash\<close> returns exactly the pure
  equilibrium \<open>(D, D)\<close> and no mixed equilibrium.
\<close>

theorem prisoners_dilemma_nash:
  assumes "player_id p1 = i1" "player_id p2 = i2" "i1 < i2" "c \<noteq> d"
  shows "NashSolver_find_all_nash (pd_game i1 i2 p1 p2 c d) = Inr ([[d, d]], [])"
  by (simp add: NashSolver_find_all_nash_def pd_pure [OF assms] pd_mixed [OF assms])

theorem prisoners_dilemma_nash_witness:
  "reconstruct_game pd_request_payoff_matrix pd_request_player_actions
     = Inr (pd_game 0 1 (Player 0 ''Player 1'' DummyStrategy) (Player 1 ''Player 2'' DummyStrategy)
              ''C'' ''D'') \<and>
   compute_nash_equilibrium (NashEquilibriumRequest pd_request_payoff_matrix pd_request_player_actions)
     = Inr (NashEquilibriumResponse [[''D'', ''D'']] [])"
proof -
  have "NashSolver_find_all_nash
          (pd_game 0 1 (Player 0 ''Player 1'' DummyStrategy) (Player 1 ''Player 2'' DummyStrategy)
             ''C'' ''D'') = Inr ([[''D'', ''D'']], [])"
    by (rule prisoners_dilemma_nash) (simp_all add: Player_def)
  then show ?thesis
    by (simp add: compute_nash_equilibrium_def reconstruct_pd)
qed

section \<open>The analysis handlers and the session store\<close>

text \<open>
  C3. The handlers of \<open>/equilibrium/nash\<close>, \<open>/equilibrium/cournot\<close> and
  \<open>/analyze/best_response\<close> compute their response from the request alone: on any two
  states of the session manager the same request gets the same response, and the
  session manager is left as it was. The response is the same under any other games
  registry, templates and game engine as well; that of \<open>/analyze/best_response\<close> depends
  on the deviation-graph analyzer it calls.
\<close>

theorem analysis_handlers_session_free:
  "fst (app B uuid sm (POST_equilibrium_nash nash_request))
     = fst (app B' uuid' sm' (POST_equilibrium_nash nash_request)) \<and>
   snd (app B uuid sm (POST_equilibrium_nash nash_request)) = sm \<and>
   fst (app B uuid sm (POST_equilibrium_cournot cournot_request))
     = fst (app B' uuid' sm' (POST_equilibrium_cournot cournot_request)) \<and>
   snd (app B uuid sm (POST_equilibrium_cournot cournot_request)) = sm \<and>
   (backend_get_deviation_graph B = backend_get_deviation_graph B' \<longrightarrow>
      fst (app B uuid sm (POST_analyze_best_response best_response_request))
        = fst (app B' uuid' sm' (POST_analyze_best_response best_response_request))) \<and>
   snd (app B uuid sm (POST_analyze_best_response best_response_request)) = sm"
  by simp

theorem analysis_handlers_session_free_witness:
  "fst (app sample_backend ''id-1'' \<lparr>sessions = []\<rparr>
          (POST_equilibrium_nash (NashEquilibriumRequest pd_request_payoff_matrix pd_request_player_actions)))
     = Inr (NashEquilibriumResponse [[''D'', ''D'']] []) \<and>
   fst (app sample_backend ''id-2''
          \<lparr>sessions = [(''s'', \<lparr>session_game = [JStr ''cournot''], session_game_type = Some ''cournot'',
                                session_created_at = None\<rparr>)]\<rparr>
          (POST_equilibrium_nash (NashEquilibriumRequest pd_request_payoff_matrix pd_request_player_actions)))
     = Inr (NashEquilibriumResponse [[''D'', ''D'']] []) \<and>
   snd (app sample_backend ''id-2''
          \<lparr>sessions = [(''s'', \<lparr>session_game = [JStr ''cournot''], session_game_type = Some ''cournot'',
                                session_created_at = None\<rparr>)]\<rparr>
          (POST_equilibrium_nash (NashEquilibriumRequest pd_request_payoff_matrix pd_request_player_actions)))
     = \<lparr>sessions = [(''s'', \<lparr>session_game = [JStr ''cournot''], session_game_type = Some ''cournot'',
                                session_created_at = None\<rparr>)]\<rparr>"
proof -
  have one: "fst (app sample_backend ''id-1'' \<lparr>sessions = []\<rparr>
          (POST_equilibrium_nash (NashEquilibriumRequest pd_request_payoff_matrix pd_request_player_actions)))
     = Inr (NashEquilibriumResponse [[''D'', ''D'']] [])"
    by (simp add: pd_request_response)
  note free = analysis_handlers_session_free [where B = sample_backend and B' = sample_backend
      and uuid = "''id-2''"
      and sm = "\<lparr>sessions = [(''s'', \<lparr>session_game = [JStr ''cournot''],
                    session_game_type = Some ''cournot'', session_created_at = None\<rparr>)]\<rparr>"
      and uuid' = "''id-1''" and sm' = "\<lparr>sessions = []\<rparr>"
      and nash_request = "NashEquilibriumRequest pd_request_payoff_matrix pd_request_player_actions"]
  note same = free [THEN conjunct1]
  note kept = free [THEN conjunct2, THEN conjunct1]
  show ?thesis
    unfolding same kept using one by simp
qed

section \<open>Player ids at the boundary of a played round\<close>

lemma prisoners_dilemma_ids: "nf_player_ids prisoners_dilemma = [0, 1]"
  by (simp add: nf_player_ids_def prisoners_dilemma_def NormalFormGame_def Player_def)




section \<open>Rejected Cournot queries\<close>







section \<open>The game reconstructed from a request\<close>







section \<open>Simulation on a stored session\<close>

lemma play_round_history:
  "NormalFormGame_play_round g acts = (r, g') \<Longrightarrow>
     (case r of
        Inl e \<Rightarrow> g' = g
      | Inr payoffs \<Rightarrow> \<exists>profile. g' = g\<lparr>nf_history := nf_history g @ [(profile, payoffs)]\<rparr>)"
proof -
  assume run: "NormalFormGame_play_round g acts = (r, g')"
  let ?profile = "map_exn (\<lambda>i. case map_of acts i of
                           None \<Rightarrow> Inl (InvalidAction (''no action for player '' @ str_py i))
                         | Some a \<Rightarrow>
                             (case action_set g i of
                                Inl e \<Rightarrow> Inl e
                              | Inr legal \<Rightarrow>
                                  if a \<in> set legal then Inr a
                                  else Inl (InvalidAction (''illegal action '' @ a))))
             (nf_player_ids g)"
  show ?thesis
  proof (cases ?profile)
    case (Inl e)
    with run have "r = Inl e" "g' = g"
      by (simp_all add: NormalFormGame_play_round_def)
    then show ?thesis by simp
  next
    case (Inr profile)
    show ?thesis
    proof (cases "lookup_payoffs g profile")
      case (Inl e)
      with run Inr have "r = Inl e" "g' = g"
        by (simp_all add: NormalFormGame_play_round_def)
      then show ?thesis by simp
    next
      case payoffs: (Inr payoffs)
      with run Inr have "r = Inr payoffs" "g' = g\<lparr>nf_history := nf_history g @ [(profile, payoffs)]\<rparr>"
        by (simp_all add: NormalFormGame_play_round_def)
      then show ?thesis by auto
    qed
  qed
qed

lemma simulate_rounds_choose_fails:
  "map_exn (\<lambda>(i, s). case strategy_choose s i (nf_history g) of
                        Inl e \<Rightarrow> Inl e
                      | Inr a \<Rightarrow> Inr (i, a)) bound = Inl e \<Longrightarrow>
     simulate_rounds strategy_choose bound discount_factor t (Suc n) acc g = (Inl e, g)"
  by (simp add: simulate_rounds.simps)

lemma simulate_rounds_play_fails:
  "map_exn (\<lambda>(i, s). case strategy_choose s i (nf_history g) of
                        Inl e \<Rightarrow> Inl e
                      | Inr a \<Rightarrow> Inr (i, a)) bound = Inr chosen \<Longrightarrow>
   NormalFormGame_play_round g (dict_of chosen) = (Inl e, g1) \<Longrightarrow>
     simulate_rounds strategy_choose bound discount_factor t (Suc n) acc g = (Inl e, g1)"
  by (simp add: simulate_rounds.simps)

lemma simulate_rounds_step:
  "map_exn (\<lambda>(i, s). case strategy_choose s i (nf_history g) of
                        Inl e \<Rightarrow> Inl e
                      | Inr a \<Rightarrow> Inr (i, a)) bound = Inr chosen \<Longrightarrow>
   NormalFormGame_play_round g (dict_of chosen) = (Inr payoffs, g1) \<Longrightarrow>
     simulate_rounds strategy_choose bound discount_factor t (Suc n) acc g
       = simulate_rounds strategy_choose bound discount_factor (Suc t) n
           \<lparr>result_history = result_history acc @ drop (length (nf_history g)) (nf_history g1),
            result_cumulative_payoffs = add_payoffs 1 payoffs (result_cumulative_payoffs acc),
            result_discounted_payoffs =
              (case discount_factor of
                 None \<Rightarrow> None
               | Some d \<Rightarrow> map_option (add_payoffs (d ^ t) payoffs) (result_discounted_payoffs acc)),
            result_strategy_history = result_strategy_history acc @ [dict_of chosen]\<rparr>
           g1"
  by (simp add: simulate_rounds.simps)

lemma simulate_rounds_history:
  "simulate_rounds strategy_choose bound discount_factor t n acc g = (r, g') \<Longrightarrow>
     \<exists>new. nf_history g' = nf_history g @ new \<and>
       (\<forall>res. r = Inr res \<longrightarrow> result_history res = result_history acc @ new \<and> length new = n)"
proof (induction n arbitrary: t acc g)
  case 0
  then have "r = Inr acc" "g' = g" by (simp_all add: simulate_rounds.simps)
  then show ?case by simp
next
  case (Suc n)
  show ?case
  proof (cases "map_exn (\<lambda>(i, s). case strategy_choose s i (nf_history g) of
                                Inl e \<Rightarrow> Inl e
                              | Inr a \<Rightarrow> Inr (i, a)) bound")
    case (Inl e)
    note fails = simulate_rounds_choose_fails [where strategy_choose = strategy_choose and g = g
        and bound = bound, OF Inl]
    from Suc.prems have "r = Inl e" "g' = g"
      by (simp_all add: fails)
    then show ?thesis by simp
  next
    case chosen: (Inr chosen)
    obtain r1 g1 where play: "NormalFormGame_play_round g (dict_of chosen) = (r1, g1)"
      by (cases "NormalFormGame_play_round g (dict_of chosen)")
    show ?thesis
    proof (cases r1)
      case (Inl e)
      with play_round_history [OF play] have g1: "g1 = g" by simp
      note fails = simulate_rounds_play_fails [where strategy_choose = strategy_choose and g = g
          and bound = bound, OF chosen play [unfolded Inl]]
      from Suc.prems have "r = Inl e" "g' = g"
        by (simp_all add: fails g1)
      then show ?thesis by simp
    next
      case (Inr payoffs)
      with play_round_history [OF play] obtain profile where
        g1: "g1 = g\<lparr>nf_history := nf_history g @ [(profile, payoffs)]\<rparr>" by auto
      define acc' where "acc' =
          \<lparr>result_history = result_history acc @ drop (length (nf_history g)) (nf_history g1),
            result_cumulative_payoffs = add_payoffs 1 payoffs (result_cumulative_payoffs acc),
            result_discounted_payoffs =
              (case discount_factor of
                 None \<Rightarrow> None
               | Some d \<Rightarrow> map_option (add_payoffs (d ^ t) payoffs) (result_discounted_payoffs acc)),
            result_strategy_history = result_strategy_history acc @ [dict_of chosen]\<rparr>"
      note step = simulate_rounds_step [where strategy_choose = strategy_choose and g = g
          and bound = bound, OF chosen play [unfolded Inr]]
      have rec: "simulate_rounds strategy_choose bound discount_factor (Suc t) n acc' g1 = (r, g')"
        using Suc.prems by (simp only: step acc'_def)
      from Suc.IH [OF rec] obtain new where
        new: "nf_history g' = nf_history g1 @ new"
          "\<forall>res. r = Inr res \<longrightarrow> result_history res = result_history acc' @ new \<and> length new = n"
        by blast
      have h: "result_history acc' = result_history acc @ [(profile, payoffs)]"
        by (simp add: acc'_def g1)
      have "nf_history g' = nf_history g @ ((profile, payoffs) # new)"
        using new(1) g1 by simp
      moreover have "\<forall>res. r = Inr res \<longrightarrow>
          result_history res = result_history acc @ ((profile, payoffs) # new) \<and>
          length ((profile, payoffs) # new) = Suc n"
      proof (intro allI impI)
        fix res assume "r = Inr res"
        with new(2) have "result_history res = result_history acc' @ new" "length new = n"
          by blast+
        then show "result_history res = result_history acc @ ((profile, payoffs) # new) \<and>
          length ((profile, payoffs) # new) = Suc n"
          by (simp add: h)
      qed
      ultimately show ?thesis by (intro exI [of _ "(profile, payoffs) # new"] conjI)
    qed
  qed
qed

lemma simulate_repeated_game_continues:
  assumes "simulate_repeated_game strategy_choose g num_rounds discount_factor False = (r, g')"
  shows "\<exists>new. nf_history g' = nf_history g @ new \<and>
           (\<forall>res. r = Inr res \<longrightarrow> result_history res = new \<and> length new = nat num_rounds)"
proof (cases "map_exn (\<lambda>p. case player_strategy p of
                           None \<Rightarrow> Inl (MissingStrategy (''no strategy for player '' @ str_py (player_id p)))
                         | Some s \<Rightarrow> Inr (player_id p, s))
             (sort_key player_id (nf_players g))")
  case (Inl e)
  with assms have "r = Inl e" "g' = g" by (simp_all add: simulate_repeated_game_def)
  then show ?thesis by simp
next
  case (Inr bound)
  define acc where "acc = \<lparr>result_history = [],
              result_cumulative_payoffs = map (\<lambda>(i, s). (i, 0 :: real)) bound,
              result_discounted_payoffs =
                (case discount_factor of None \<Rightarrow> None | Some d \<Rightarrow> Some (map (\<lambda>(i, s). (i, 0)) bound)),
              result_strategy_history = []\<rparr>"
  from assms Inr have "simulate_rounds strategy_choose bound discount_factor 0 (nat num_rounds) acc g = (r, g')"
    by (simp add: simulate_repeated_game_def Let_def acc_def)
  from simulate_rounds_history [OF this] show ?thesis by (simp add: acc_def)
qed

lemma simulate_game_uses_no_reset:
  assumes "\<forall>g n d. simulate_of E' g n d False = simulate_of E g n d False"
  shows "simulate_game E' sm session_id request = simulate_game E sm session_id request"
proof (cases request)
  case (SimulateRequest num_rounds discount_factor)
  show ?thesis
  proof (cases "get_session sm session_id")
    case None
    then show ?thesis by (simp add: simulate_game_def SimulateRequest)
  next
    case (Some session)
    then show ?thesis by (simp add: simulate_game_def SimulateRequest assms)
  qed
qed

lemma prisoners_dilemma_played_round:
  "simulate_repeated_game choose_two_player prisoners_dilemma_played 1 None False
     = (Inr \<lparr>result_history = [([''Defect'', ''Defect''], [(0, 1), (1, 1)])],
             result_cumulative_payoffs = [(0, 1), (1, 1)],
             result_discounted_payoffs = None,
             result_strategy_history = [[(0, ''Defect''), (1, ''Defect'')]]\<rparr>,
        prisoners_dilemma\<lparr>nf_history := [([''Cooperate'', ''Defect''], [(0, 0), (1, 5)]),
                                           ([''Defect'', ''Defect''], [(0, 1), (1, 1)])]\<rparr>)"
  by (simp add: simulate_repeated_game_def simulate_rounds.simps prisoners_dilemma_played_def
        prisoners_dilemma_def NormalFormGame_def Player_def opponent_action_def dict_of_def
        NormalFormGame_play_round_def nf_player_ids_def action_set_def lookup_payoffs_def
        add_payoffs_def dict_get_def)

lemma pd_played_simulate:
  "simulate_game normal_form_engine pd_played_session_manager ''s'' (SimulateRequest 1 None)
     = (Inr (SimulateResponse [HistoryItem [''Defect'', ''Defect''] [(''0'', 1), (''1'', 1)]]
               [(''0'', 1), (''1'', 1)] None [[(''0'', ''Defect''), (''1'', ''Defect'')]]),
        \<lparr>sessions = [(''s'', \<lparr>session_game =
                               prisoners_dilemma\<lparr>nf_history :=
                                 [([''Cooperate'', ''Defect''], [(0, 0), (1, 5)]),
                                  ([''Defect'', ''Defect''], [(0, 1), (1, 1)])]\<rparr>,
                             session_game_type = Some ''prisoners_dilemma'',
                             session_created_at = None\<rparr>)]\<rparr>)"
  by (simp add: simulate_game_def get_session_def pd_played_session_manager_def normal_form_engine_def
        prisoners_dilemma_played_round set_game_def history_items_def str_keys_def str_py_0 str_py_1)

text \<open>
  C9. The handler of \<open>/games/{session_id}/simulate\<close> always calls
  \<open>simulate_repeated_game\<close> with \<open>reset_between_runs=False\<close>: its outcome depends on the
  simulator only through the calls without reset, and the request has no field that
  could ask for one. With the simulator of the specification, the game of the session
  keeps its earlier history and the rounds of the run are appended to it, so the
  strategies are asked with the earlier rounds in view.
\<close>

theorem simulate_game_never_resets:
  "((\<forall>g n d. simulate_of E' g n d False = simulate_of E g n d False) \<longrightarrow>
      simulate_game E' sm session_id request = simulate_game E sm session_id request) \<and>
   (simulate_of E = simulate_repeated_game strategy_choose \<and>
    get_session sm session_id = Some session \<and>
    simulate_game E sm session_id (SimulateRequest num_rounds discount_factor) = (r, sm') \<longrightarrow>
      (\<exists>session' new. get_session sm' session_id = Some session' \<and>
         nf_history (session_game session') = nf_history (session_game session) @ new \<and>
         (\<forall>history cumulative discounted strategy_history.
            r = Inr (SimulateResponse history cumulative discounted strategy_history) \<longrightarrow>
              length new = nat num_rounds \<and> history = history_items new)))"
proof -
  have second: "simulate_of E = simulate_repeated_game strategy_choose \<and>
    get_session sm session_id = Some session \<and>
    simulate_game E sm session_id (SimulateRequest num_rounds discount_factor) = (r, sm') \<longrightarrow>
      (\<exists>session' new. get_session sm' session_id = Some session' \<and>
         nf_history (session_game session') = nf_history (session_game session) @ new \<and>
         (\<forall>history cumulative discounted strategy_history.
            r = Inr (SimulateResponse history cumulative discounted strategy_history) \<longrightarrow>
              length new = nat num_rounds \<and> history = history_items new))"
  proof (intro impI, elim conjE)
    assume E: "simulate_of E = simulate_repeated_game strategy_choose"
      and s: "get_session sm session_id = Some session"
      and run: "simulate_game E sm session_id (SimulateRequest num_rounds discount_factor) = (r, sm')"
    obtain r1 g1 where sim: "simulate_repeated_game strategy_choose (session_game session) num_rounds
        discount_factor False = (r1, g1)"
      by (cases "simulate_repeated_game strategy_choose (session_game session) num_rounds
        discount_factor False")
    from simulate_repeated_game_continues [OF sim] obtain new where
      new: "nf_history g1 = nf_history (session_game session) @ new"
        "\<forall>res. r1 = Inr res \<longrightarrow> result_history res = new \<and> length new = nat num_rounds"
      by blast
    from run s E sim have sm': "sm' = set_game sm session_id session g1"
      by (auto simp: simulate_game_def split: sum.splits)
    have got: "get_session sm' session_id = Some (session\<lparr>session_game := g1\<rparr>)"
      by (simp add: sm' set_game_def get_session_def update_conv')
    have resp: "\<forall>history cumulative discounted strategy_history.
            r = Inr (SimulateResponse history cumulative discounted strategy_history) \<longrightarrow>
              length new = nat num_rounds \<and> history = history_items new"
      using run s E sim new(2) by (auto simp: simulate_game_def split: sum.splits)
    from got new(1) resp show "\<exists>session' new. get_session sm' session_id = Some session' \<and>
         nf_history (session_game session') = nf_history (session_game session) @ new \<and>
         (\<forall>history cumulative discounted strategy_history.
            r = Inr (SimulateResponse history cumulative discounted strategy_history) \<longrightarrow>
              length new = nat num_rounds \<and> history = history_items new)"
      by (intro exI [of _ "session\<lparr>session_game := g1\<rparr>"] exI [of _ new]) simp
  qed
  from simulate_game_uses_no_reset [of E' E sm session_id request] second show ?thesis by blast
qed

theorem simulate_game_never_resets_witness:
  "\<exists>session' new.
     get_session (snd (simulate_game normal_form_engine pd_played_session_manager ''s''
                         (SimulateRequest 1 None))) ''s'' = Some session' \<and>
     nf_history (session_game session')
       = [([''Cooperate'', ''Defect''], [(0, 0), (1, 5)])] @ new \<and>
     length new = 1 \<and>
     history_items new = [HistoryItem [''Defect'', ''Defect''] [(''0'', 1), (''1'', 1)]]"
proof -
  have E: "simulate_of normal_form_engine = simulate_repeated_game choose_two_player"
    by (simp add: normal_form_engine_def)
  have s: "get_session pd_played_session_manager ''s''
      = Some \<lparr>session_game = prisoners_dilemma_played, session_game_type = Some ''prisoners_dilemma'',
               session_created_at = None\<rparr>"
    by (simp add: get_session_def pd_played_session_manager_def)
  note t = simulate_game_never_resets [where E = normal_form_engine
      and strategy_choose = choose_two_player and sm = pd_played_session_manager
      and session_id = "''s''" and num_rounds = 1 and discount_factor = None, THEN conjunct2, rule_format,
      OF conjI [OF E conjI [OF s pd_played_simulate]]]
  from t obtain session' new where
    got: "get_session \<lparr>sessions = [(''s'', \<lparr>session_game =
                               prisoners_dilemma\<lparr>nf_history :=
                                 [([''Cooperate'', ''Defect''], [(0, 0), (1, 5)]),
                                  ([''Defect'', ''Defect''], [(0, 1), (1, 1)])]\<rparr>,
                             session_game_type = Some ''prisoners_dilemma'',
                             session_created_at = None\<rparr>)]\<rparr> ''s'' = Some session'"
    and h: "nf_history (session_game session')
       = nf_history (session_game \<lparr>session_game = prisoners_dilemma_played,
            session_game_type = Some ''prisoners_dilemma'', session_created_at = None\<rparr>) @ new"
    and r: "\<forall>history cumulative discounted strategy_history.
            Inr (SimulateResponse [HistoryItem [''Defect'', ''Defect''] [(''0'', 1), (''1'', 1)]]
               [(''0'', 1), (''1'', 1)] None [[(''0'', ''Defect''), (''1'', ''Defect'')]])
              = (Inr (SimulateResponse history cumulative discounted strategy_history) :: exn + response) \<longrightarrow>
              length new = nat 1 \<and> history = history_items new"
    by blast
  from r have "length new = 1" "history_items new = [HistoryItem [''Defect'', ''Defect''] [(''0'', 1), (''1'', 1)]]"
    by auto
  with got h show ?thesis
    by (intro exI [of _ session'] exI [of _ new]) (simp add: pd_played_simulate prisoners_dilemma_played_def)
qed

end
